theory Spec2Isabelle
  imports Complex_Main "HOL-Library.AList"
begin

section \<open>The data model\<close>

text \<open>
  The bot keeps all durable state in a remote relational store and reaches it through
  the query client (\<^verbatim>\<open>self.supabase.table(...)...execute()\<close>). The tables are modelled as
  lists of rows, a row as a record of the columns the code reads or writes.

  A timestamp column is read back as an ISO string and parsed with
  \<^verbatim>\<open>datetime.fromisoformat(s.replace('Z', '+00:00'))\<close>: the result is a naive datetime
  when the string carries no UTC offset and an aware one when it ends in an offset or in
  \<^verbatim>\<open>Z\<close>. Both carry their instant in microseconds. \<^verbatim>\<open>datetime.utcnow()\<close> is
  always naive, and Python refuses to subtract an aware datetime from a naive one.
\<close>

datatype datetime = Naive int | Aware int

datatype py_error =
    TypeError | ValueError | OverflowError | NameError | APIError | Exception string

record channel =
  ch_id :: int
  ch_name :: string
  ch_is_active :: bool

text \<open>
  The content a user submits: a script is a \<^verbatim>\<open>str\<close>, a thumbnail is the dictionary
  \<^verbatim>\<open>{'file_id': ..., 'url': ...}\<close> that \<^verbatim>\<open>handle_message\<close> builds (its url is
  \<^verbatim>\<open>None\<close> there). The handlers take the content as \<^verbatim>\<open>Any\<close> and never check which
  of the two it is.
\<close>

datatype pyval = PyStr string | PyFile string "string option"

text \<open>
  A row of \<^verbatim>\<open>daily_uploads\<close>. \<open>channel_name\<close> is the embedded
  \<^verbatim>\<open>channels(channel_name)\<close> object of the selects (\<^verbatim>\<open>upload['channels']['channel_name']\<close>):
  \<open>channel_id\<close> is a foreign key into \<^verbatim>\<open>channels\<close>, so every row has one.
  \<open>script_text\<close> holds what \<^verbatim>\<open>update_script\<close> was given, which the client sends as
  JSON: a string, or a dictionary when the caller passed one.
\<close>

record upload =
  channel_id :: int
  channel_name :: string
  upload_date :: string
  video_number :: int
  script_status :: string
  thumbnail_status :: string
  video_status :: string
  audio_status :: string
  script_text :: "pyval option"
  script_received_at :: "int option"
  thumbnail_gdrive_id :: "string option"
  thumbnail_gdrive_url :: "string option"
  video_gdrive_id :: "string option"
  video_gdrive_url :: "string option"
  error_message :: "string option"
  processing_completed_at :: "int option"
  updated_at :: "int option"

text \<open>A row of \<^verbatim>\<open>upload_schedules\<close>: one per date, with the date's last-sent marker.\<close>

record schedule =
  sched_upload_date :: string
  sched_all_complete :: bool
  last_reminder_sent_at :: "datetime option"
  reminder_type :: "string option"

record reminder_log =
  log_reminder_type :: string
  log_upload_date :: string
  incomplete_count :: nat
  channels_mentioned :: "string list"

text \<open>
  A row of \<^verbatim>\<open>gdrive_folders\<close>. \<open>folder_date\<close> is a date column; dates are
  proleptic Gregorian ordinals, as \<^verbatim>\<open>date.toordinal()\<close> numbers them
  (1 is 0001-01-01, 3652059 is 9999-12-31).
\<close>

record folder =
  folder_id :: string
  folder_date :: int
  folder_is_active :: bool
  archived_at :: "int option"

record tables =
  channels :: "channel list"
  daily_uploads :: "upload list"
  upload_schedules :: "schedule list"
  reminder_logs :: "reminder_log list"
  gdrive_folders :: "folder list"

text \<open>The per-user wizard state, \<^verbatim>\<open>context.user_data['selections'][user_id]\<close>.\<close>

record selection =
  content_type :: string
  content_data :: pyval
  step :: string
  selected_date :: "string option"
  selected_channel :: "string option"
  selected_video :: "int option"
  message_id :: "int option"

record bulk_selection =
  bulk_content_type :: string
  bulk_items :: "pyval list"
  bulk_step :: string
  bulk_selected_date :: "string option"
  bulk_selected_channel :: "string option"

text \<open>
  The journal lists, in order, the calls made on the commit path: each run of
  \<^verbatim>\<open>_process_selection\<close> (one "assign content to slot" commit of the wizard), entered
  when the run starts, and each call of a writing method of \<^verbatim>\<open>DailyUploadManager\<close>,
  entered when the call ends, with its arguments and with whether it returned
  (\<open>True\<close>) or raised (\<open>False\<close>). It is the model's record of what was attempted, also
  when the store refuses the call.
\<close>

datatype event =
    ProcessSelection "string option" "string option" "int option"
  | CreateUploadEntry int "string option" int bool
  | UpdateScript int string int pyval bool
  | UpdateThumbnail int string int string "string option" bool
  | UpdateVideoStatus int string int string bool

text \<open>
  The world a handler runs in: the store's tables, the selections kept in
  \<^verbatim>\<open>context.user_data\<close>, the clock, and the remote failures to come. Every
  \<^verbatim>\<open>execute()\<close> consumes one flag of \<open>faults\<close>; a flag that is \<open>True\<close> makes that call
  raise (the store is unreachable or refuses), and an exhausted list means no further
  failure. In the same way every awaited call of the selection handlers on the chat
  platform (\<^verbatim>\<open>query.answer\<close>, \<^verbatim>\<open>query.edit_message_text\<close>,
  \<^verbatim>\<open>message.reply_text\<close>) consumes one flag of \<open>chat_faults\<close> and raises when the flag
  is \<open>True\<close>. The texts sent are not modelled, and the broadcast of the reminder jobs
  (\<^verbatim>\<open>send_message\<close>) is taken to be delivered.
\<close>

record world =
  db :: tables
  faults :: "bool list"
  chat_faults :: "bool list"
  journal :: "event list"
  selections :: "int \<Rightarrow> selection option"
  bulk_selections :: "int \<Rightarrow> bulk_selection option"
  utcnow :: int

definition execute :: "world \<Rightarrow> bool \<times> world" where
  "execute w =
     (case faults w of
        [] \<Rightarrow> (True, w)
      | f # fs \<Rightarrow> (\<not> f, w\<lparr>faults := fs\<rparr>))"

definition chat :: "world \<Rightarrow> bool \<times> world" where
  "chat w =
     (case chat_faults w of
        [] \<Rightarrow> (True, w)
      | f # fs \<Rightarrow> (\<not> f, w\<lparr>chat_faults := fs\<rparr>))"

text \<open>Entering a finished call of a writing method into the journal.\<close>

definition returned :: "py_error + upload \<Rightarrow> bool" where
  "returned r = (case r of Inl e \<Rightarrow> False | Inr row \<Rightarrow> True)"

definition journaled ::
  "(bool \<Rightarrow> event) \<Rightarrow> (py_error + upload) \<times> world \<Rightarrow> (py_error + upload) \<times> world" where
  "journaled call rw =
     (case rw of (r, w) \<Rightarrow> (r, w\<lparr>journal := journal w @ [call (returned r)]\<rparr>))"

section \<open>ChannelManager\<close>

text \<open>
  \<^verbatim>\<open>get_channel\<close> returns the first channel of that name, and \<^verbatim>\<open>None\<close> when there is none
  or when the query raises. The wizard passes \<^verbatim>\<open>state['selected_channel']\<close>, which is
  \<^verbatim>\<open>None\<close> until a channel is picked; no channel is found for it.
\<close>

definition get_channel :: "world \<Rightarrow> string option \<Rightarrow> channel option \<times> world" where
  "get_channel w channel_name' =
     (case execute w of (ok, w1) \<Rightarrow>
        if \<not> ok then (None, w1)
        else (case channel_name' of
                None \<Rightarrow> (None, w1)
              | Some nm \<Rightarrow>
                  (case filter (\<lambda>c. ch_name c = nm) (channels (db w1)) of
                     [] \<Rightarrow> (None, w1)
                   | c # _ \<Rightarrow> (Some c, w1))))"

text \<open>
  \<^verbatim>\<open>list_channels\<close>: the rows (the active ones when \<open>active_only\<close>), and the empty list
  when the query raises. The store's ordering by name is left out.
\<close>

definition list_channels :: "world \<Rightarrow> bool \<Rightarrow> channel list \<times> world" where
  "list_channels w active_only =
     (case execute w of (ok, w1) \<Rightarrow>
        if \<not> ok then ([], w1)
        else (filter (\<lambda>c. \<not> active_only \<or> ch_is_active c) (channels (db w1)), w1))"

section \<open>DailyUploadManager\<close>

definition same_slot :: "int \<Rightarrow> string \<Rightarrow> int \<Rightarrow> upload \<Rightarrow> bool" where
  "same_slot c d n u = (channel_id u = c \<and> upload_date u = d \<and> video_number u = n)"

text \<open>
  The payload \<^verbatim>\<open>data\<close> of \<^verbatim>\<open>create_upload_entry\<close> as a fresh row: the key, the four
  statuses \<^verbatim>\<open>'pending'\<close>, and every other column at its default.
\<close>

definition pending_row :: "int \<Rightarrow> string \<Rightarrow> string \<Rightarrow> int \<Rightarrow> upload" where
  "pending_row c nm d n =
     \<lparr>channel_id = c, channel_name = nm, upload_date = d, video_number = n,
      script_status = ''pending'', thumbnail_status = ''pending'',
      video_status = ''pending'', audio_status = ''pending'',
      script_text = None, script_received_at = None,
      thumbnail_gdrive_id = None, thumbnail_gdrive_url = None,
      video_gdrive_id = None, video_gdrive_url = None,
      error_message = None, processing_completed_at = None, updated_at = None\<rparr>"

text \<open>
  \<^verbatim>\<open>upsert(data, on_conflict='channel_id,upload_date,video_number')\<close> with the client's
  default \<^verbatim>\<open>ignore_duplicates=False\<close>: the request asks the store to merge duplicates, that
  is \<^verbatim>\<open>INSERT ... ON CONFLICT (...) DO UPDATE\<close> setting every column of the payload. A row
  with the payload's key takes the payload's columns (here the four statuses; the key
  columns are equal already) and keeps its other columns; without such a row the payload
  is inserted.
\<close>

definition upsert_upload :: "upload list \<Rightarrow> upload \<Rightarrow> upload list" where
  "upsert_upload rows data =
     (if list_ex (same_slot (channel_id data) (upload_date data) (video_number data)) rows
      then map (\<lambda>u. if same_slot (channel_id data) (upload_date data) (video_number data) u
                     then u\<lparr>script_status := script_status data,
                            thumbnail_status := thumbnail_status data,
                            video_status := video_status data,
                            audio_status := audio_status data\<rparr>
                     else u) rows
      else rows @ [data])"

text \<open>
  \<^verbatim>\<open>create_upload_entry\<close>. The store refuses a row without a date (the wizard passes
  \<^verbatim>\<open>state['selected_date']\<close>, which may still be \<^verbatim>\<open>None\<close>) and a row whose
  \<open>channel_id\<close> is no channel (the foreign key). Every failure is logged and raised again.
\<close>

definition create_upload_entry ::
  "world \<Rightarrow> int \<Rightarrow> string option \<Rightarrow> int \<Rightarrow> (py_error + upload) \<times> world" where
  "create_upload_entry w c upload_date' n =
     journaled (CreateUploadEntry c upload_date' n)
       (case execute w of (ok, w1) \<Rightarrow>
          if \<not> ok then (Inl APIError, w1)
          else (case upload_date' of
                  None \<Rightarrow> (Inl APIError, w1)
                | Some d \<Rightarrow>
                    (case find (\<lambda>ch. ch_id ch = c) (channels (db w1)) of
                       None \<Rightarrow> (Inl APIError, w1)
                     | Some ch \<Rightarrow>
                         (let rows = upsert_upload (daily_uploads (db w1))
                                       (pending_row c (ch_name ch) d n);
                              w2 = w1\<lparr>db := (db w1)\<lparr>daily_uploads := rows\<rparr>\<rparr>
                          in case find (same_slot c d n) rows of
                               None \<Rightarrow> (Inl (Exception ''Failed to create upload entry''), w2)
                             | Some r \<Rightarrow> (Inr r, w2)))))"

text \<open>
  The three updates patch the rows of one slot and return the first patched row; with no
  such row \<^verbatim>\<open>result.data\<close> is empty and they raise \<^verbatim>\<open>Exception("Upload entry not found")\<close>.
  \<^verbatim>\<open>update_script\<close> puts its argument into the patch as it is, whatever its type.
\<close>

definition patch_slot ::
  "world \<Rightarrow> int \<Rightarrow> string \<Rightarrow> int \<Rightarrow> (upload \<Rightarrow> upload) \<Rightarrow> (py_error + upload) \<times> world" where
  "patch_slot w c d n updates =
     (case execute w of (ok, w1) \<Rightarrow>
        if \<not> ok then (Inl APIError, w1)
        else (let rows = map (\<lambda>u. if same_slot c d n u then updates u else u)
                           (daily_uploads (db w1));
                  w2 = w1\<lparr>db := (db w1)\<lparr>daily_uploads := rows\<rparr>\<rparr>
              in case filter (same_slot c d n) (daily_uploads (db w1)) of
                   [] \<Rightarrow> (Inl (Exception ''Upload entry not found''), w2)
                 | u # _ \<Rightarrow> (Inr (updates u), w2)))"

definition update_script ::
  "world \<Rightarrow> int \<Rightarrow> string \<Rightarrow> int \<Rightarrow> pyval \<Rightarrow> (py_error + upload) \<times> world" where
  "update_script w c d n script_text' =
     journaled (UpdateScript c d n script_text')
       (patch_slot w c d n
          (\<lambda>u. u\<lparr>script_text := Some script_text', script_status := ''received'',
                 script_received_at := Some (utcnow w), updated_at := Some (utcnow w)\<rparr>))"

definition update_thumbnail ::
  "world \<Rightarrow> int \<Rightarrow> string \<Rightarrow> int \<Rightarrow> string \<Rightarrow> string option \<Rightarrow> (py_error + upload) \<times> world" where
  "update_thumbnail w c d n gdrive_id gdrive_url =
     journaled (UpdateThumbnail c d n gdrive_id gdrive_url)
       (patch_slot w c d n
          (\<lambda>u. u\<lparr>thumbnail_gdrive_id := Some gdrive_id, thumbnail_gdrive_url := gdrive_url,
                 thumbnail_status := ''received'', updated_at := Some (utcnow w)\<rparr>))"

text \<open>
  \<^verbatim>\<open>update_video_status\<close> builds its patch from the arguments that are truthy: an
  argument that is \<^verbatim>\<open>None\<close> or the empty string leaves its column alone.
\<close>

definition truthy :: "string option \<Rightarrow> bool" where
  "truthy s = (case s of None \<Rightarrow> False | Some t \<Rightarrow> t \<noteq> [])"

definition update_video_status ::
  "world \<Rightarrow> int \<Rightarrow> string \<Rightarrow> int \<Rightarrow> string \<Rightarrow> string option \<Rightarrow> string option \<Rightarrow> string option
     \<Rightarrow> (py_error + upload) \<times> world" where
  "update_video_status w c d n status video_gdrive_id' video_gdrive_url' error_message' =
     journaled (UpdateVideoStatus c d n status)
       (patch_slot w c d n
          (\<lambda>u. u\<lparr>video_status := status,
                 updated_at := Some (utcnow w),
                 video_gdrive_id := (if truthy video_gdrive_id' then video_gdrive_id'
                                     else video_gdrive_id u),
                 video_gdrive_url := (if truthy video_gdrive_url' then video_gdrive_url'
                                      else video_gdrive_url u),
                 error_message := (if truthy error_message' then error_message'
                                   else error_message u),
                 processing_completed_at := (if status = ''completed'' then Some (utcnow w)
                                             else processing_completed_at u)\<rparr>))"

section \<open>The selection wizard\<close>

text \<open>
  Callback data are raw strings, dispatched by equality and by prefix; a string is the
  list of its code points, which are taken below 256 (the chat platform limits callback
  data to 64 bytes). \<open>split1\<close> is \<^verbatim>\<open>data.split(":")[1]\<close>: the text between the first
  colon and the second (or the end); without a colon the index is out of range.
\<close>

definition startswith :: "string \<Rightarrow> string \<Rightarrow> bool" where
  "startswith s p = (take (length p) s = p)"

definition split1 :: "string \<Rightarrow> string option" where
  "split1 s =
     (if CHR '':'' \<in> set s
      then Some (takeWhile (\<lambda>c. c \<noteq> CHR '':'') (drop 1 (dropWhile (\<lambda>c. c \<noteq> CHR '':'') s)))
      else None)"

text \<open>
  \<open>py_int\<close> is \<^verbatim>\<open>int(s)\<close> on a \<^verbatim>\<open>str\<close>, in base ten: whitespace, an optional sign,
  decimal digits with single underscores between them, whitespace, and nothing else;
  any other string raises \<^verbatim>\<open>ValueError\<close>. The whitespace \<^verbatim>\<open>int\<close> skips is tab, line
  feed, vertical tab, form feed, carriage return and space, and of the code points from
  128 on those that are Unicode spaces (next line and no-break space, below 256); the
  decimal digits below 256 are \<^verbatim>\<open>0\<close> to \<^verbatim>\<open>9\<close>.
\<close>

definition is_digit :: "char \<Rightarrow> bool" where
  "is_digit c = (48 \<le> (of_char c :: nat) \<and> (of_char c :: nat) \<le> 57)"

definition is_space :: "char \<Rightarrow> bool" where
  "is_space c = ((of_char c :: nat) \<in> {9, 10, 11, 12, 13, 32, 133, 160})"

fun digits_value :: "nat \<Rightarrow> string \<Rightarrow> nat option" where
  "digits_value acc [] = Some acc"
| "digits_value acc (c # cs) =
     (if is_digit c then digits_value (10 * acc + (of_char c - 48)) cs else None)"

fun single_underscores :: "string \<Rightarrow> bool" where
  "single_underscores (a # b # cs) =
     (\<not> (a = CHR ''_'' \<and> b = CHR ''_'') \<and> single_underscores (b # cs))"
| "single_underscores cs = True"

definition py_int :: "string \<Rightarrow> int option" where
  "py_int s =
     (let s1 = dropWhile is_space s;
          negative = (s1 \<noteq> [] \<and> hd s1 = CHR ''-'');
          s2 = (if s1 \<noteq> [] \<and> (hd s1 = CHR ''+'' \<or> hd s1 = CHR ''-'') then tl s1 else s1);
          ds = takeWhile (\<lambda>c. is_digit c \<or> c = CHR ''_'') s2;
          rest = dropWhile (\<lambda>c. is_digit c \<or> c = CHR ''_'') s2
      in if ds = [] \<or> hd ds = CHR ''_'' \<or> last ds = CHR ''_'' \<or> \<not> single_underscores ds
            \<or> \<not> list_all is_space rest
         then None
         else map_option (\<lambda>n. if negative then - int n else int n)
                (digits_value 0 (filter (\<lambda>c. c \<noteq> CHR ''_'') ds)))"

text \<open>
  \<^verbatim>\<open>get_channel_buttons\<close>: one button per active channel, three to a row, then the row
  with Back and Cancel. A keyboard is given by the callback data of its buttons.
\<close>

fun channel_rows :: "string list \<Rightarrow> channel list \<Rightarrow> string list list" where
  "channel_rows row [] = []"
| "channel_rows row (c # cs) =
     (let row' = row @ [''channel:'' @ ch_name c]
      in if length row' = 3 \<or> cs = [] then row' # channel_rows [] cs
         else channel_rows row' cs)"

definition get_channel_buttons :: "world \<Rightarrow> string list list \<times> world" where
  "get_channel_buttons w =
     (case list_channels w True of (chs, w1) \<Rightarrow>
        (channel_rows [] chs @ [[''back_to_date'', ''cancel'']], w1))"

definition get_video_number_buttons :: "string list list" where
  "get_video_number_buttons =
     [[''video:1'', ''video:2''], [''video:3'', ''video:4''], [''back_to_channel'', ''cancel'']]"

definition put_selection :: "world \<Rightarrow> int \<Rightarrow> selection \<Rightarrow> world" where
  "put_selection w user_id state = w\<lparr>selections := (selections w)(user_id \<mapsto> state)\<rparr>"

definition del_selection :: "world \<Rightarrow> int \<Rightarrow> world" where
  "del_selection w user_id = w\<lparr>selections := (selections w)(user_id := None)\<rparr>"

text \<open>
  \<^verbatim>\<open>start_selection\<close> stores a fresh state for the user and sends the date prompt;
  \<open>mid\<close> is the id of the message the chat platform returns for it. When the prompt
  cannot be sent the state stays, without a message id.
\<close>

definition fresh_selection :: "string \<Rightarrow> pyval \<Rightarrow> selection" where
  "fresh_selection ct cd =
     \<lparr>content_type = ct, content_data = cd, step = ''date'',
      selected_date = None, selected_channel = None, selected_video = None,
      message_id = None\<rparr>"

definition start_selection :: "world \<Rightarrow> int \<Rightarrow> string \<Rightarrow> pyval \<Rightarrow> int \<Rightarrow> bool \<times> world" where
  "start_selection w user_id ct cd mid =
     (case chat (put_selection w user_id (fresh_selection ct cd)) of (sent, w1) \<Rightarrow>
        if \<not> sent then (False, w1)
        else (True, put_selection w1 user_id ((fresh_selection ct cd)\<lparr>message_id := Some mid\<rparr>)))"

text \<open>
  \<^verbatim>\<open>_process_selection\<close>: the commit of a finished selection. Every exception inside is
  caught and gives \<^verbatim>\<open>False\<close>. The script branch hands the content to
  \<^verbatim>\<open>update_script\<close> as it is; the thumbnail branch subscripts it
  (\<^verbatim>\<open>content_data['file_id']\<close>), which raises \<^verbatim>\<open>TypeError\<close> on a \<^verbatim>\<open>str\<close> before any
  call is made. The row an update returns is a non-empty dictionary, so \<^verbatim>\<open>bool(result)\<close>
  is \<^verbatim>\<open>True\<close>.
\<close>

definition process_selection :: "world \<Rightarrow> selection \<Rightarrow> bool \<times> world" where
  "process_selection w0 state =
     (let w = w0\<lparr>journal := journal w0 @
                 [ProcessSelection (selected_date state) (selected_channel state)
                    (selected_video state)]\<rparr>
      in case get_channel w (selected_channel state) of (channel, w1) \<Rightarrow>
        (case channel of
           None \<Rightarrow> (False, w1)
         | Some ch \<Rightarrow>
             (case selected_video state of
                None \<Rightarrow> (False, w1)
              | Some n \<Rightarrow>
                  (case create_upload_entry w1 (ch_id ch) (selected_date state) n of (r, w2) \<Rightarrow>
                     (case r of
                        Inl e \<Rightarrow> (False, w2)
                      | Inr row \<Rightarrow>
                          (case selected_date state of
                             None \<Rightarrow> (False, w2)
                           | Some d \<Rightarrow>
                               if content_type state = ''script'' then
                                 (case update_script w2 (ch_id ch) d n (content_data state)
                                  of (r2, w3) \<Rightarrow>
                                    (case r2 of Inl e \<Rightarrow> (False, w3) | Inr row2 \<Rightarrow> (True, w3)))
                               else if content_type state = ''thumbnail'' then
                                 (case content_data state of
                                    PyFile f u \<Rightarrow>
                                      (case update_thumbnail w2 (ch_id ch) d n f u of (r2, w3) \<Rightarrow>
                                         (case r2 of Inl e \<Rightarrow> (False, w3) | Inr row2 \<Rightarrow> (True, w3)))
                                  | PyStr t \<Rightarrow> (False, w2))
                               else (False, w2)))))))"

text \<open>
  \<^verbatim>\<open>handle_callback\<close>. The whole body is one \<^verbatim>\<open>try\<close> whose \<^verbatim>\<open>except\<close> returns
  \<^verbatim>\<open>False\<close>: when \<^verbatim>\<open>query.answer()\<close> raises nothing else happens, and when a later
  call raises the statements after it are skipped. The state dictionary is changed in
  place, so a change made before an exception stays; the \<^verbatim>\<open>del\<close> of the state comes
  after the reply (\<^verbatim>\<open>edit_message_text\<close>) and is skipped when the reply raises.
  \<open>isodate\<close> says for which strings \<^verbatim>\<open>datetime.fromisoformat\<close> succeeds: the handler
  formats the chosen date for its reply and leaves through the \<^verbatim>\<open>except\<close> when that
  raises. The field \<open>step\<close> is written and never read: the dispatch is on the callback
  data alone.
\<close>

definition handle_callback :: "(string \<Rightarrow> bool) \<Rightarrow> world \<Rightarrow> int \<Rightarrow> string \<Rightarrow> bool \<times> world" where
  "handle_callback isodate w0 user_id data =
     (case chat w0 of (answered, w) \<Rightarrow>
        if \<not> answered then (False, w)
        else
     (case selections w user_id of
        None \<Rightarrow> (False, snd (chat w))
      | Some state \<Rightarrow>
          if data = ''cancel'' then
            (case chat w of (replied, w1) \<Rightarrow>
               if \<not> replied then (False, w1) else (True, del_selection w1 user_id))
          else if data = ''back_to_date'' then
            chat (put_selection w user_id (state\<lparr>step := ''date'', selected_channel := None\<rparr>))
          else if data = ''back_to_channel'' then
            (case get_channel_buttons
                    (put_selection w user_id (state\<lparr>step := ''channel'', selected_video := None\<rparr>))
             of (keyboard, w1) \<Rightarrow> chat w1)
          else if startswith data ''date:'' then
            (case split1 data of
               None \<Rightarrow> (False, w)
             | Some d \<Rightarrow>
                 (case get_channel_buttons
                         (put_selection w user_id (state\<lparr>selected_date := Some d, step := ''channel''\<rparr>))
                  of (keyboard, w1) \<Rightarrow> if \<not> isodate d then (False, w1) else chat w1))
          else if startswith data ''channel:'' then
            (case split1 data of
               None \<Rightarrow> (False, w)
             | Some c \<Rightarrow>
                 chat (put_selection w user_id (state\<lparr>selected_channel := Some c, step := ''video''\<rparr>)))
          else if startswith data ''video:'' then
            (case split1 data of
               None \<Rightarrow> (False, w)
             | Some v \<Rightarrow>
                 (case py_int v of
                    None \<Rightarrow> (False, w)
                  | Some n \<Rightarrow>
                      (let state' = state\<lparr>selected_video := Some n\<rparr> in
                       case process_selection (put_selection w user_id state') state' of
                         (success, w1) \<Rightarrow>
                           if success \<and> \<not> (case selected_date state' of None \<Rightarrow> False | Some d \<Rightarrow> isodate d)
                           then (False, w1)
                           else (case chat w1 of (replied, w2) \<Rightarrow>
                                   if \<not> replied then (False, w2)
                                   else (True, del_selection w2 user_id)))))
          else (False, w)))"

text \<open>Running the handler over a list of callbacks of one user, in order.\<close>

fun run_callbacks :: "(string \<Rightarrow> bool) \<Rightarrow> world \<Rightarrow> int \<Rightarrow> string list \<Rightarrow> world" where
  "run_callbacks isodate w user_id [] = w"
| "run_callbacks isodate w user_id (data # rest) =
     run_callbacks isodate (snd (handle_callback isodate w user_id data)) user_id rest"

subsection \<open>The bulk variant\<close>

definition handle_bulk_selection :: "world \<Rightarrow> int \<Rightarrow> string \<Rightarrow> pyval list \<Rightarrow> bool \<times> world" where
  "handle_bulk_selection w user_id ct items =
     chat (w\<lparr>bulk_selections := (bulk_selections w)(user_id \<mapsto>
        \<lparr>bulk_content_type = ct, bulk_items = items, bulk_step = ''date'',
         bulk_selected_date = None, bulk_selected_channel = None\<rparr>)\<rparr>)"

text \<open>
  One pass of the loop of \<^verbatim>\<open>_process_bulk\<close>: the body of its inner \<^verbatim>\<open>try\<close>. The result
  says whether \<^verbatim>\<open>success_count\<close> is incremented; an exception is caught, logged, and the
  loop continues with the next item. As in the single commit, a script item goes to
  \<^verbatim>\<open>update_script\<close> as it is and a thumbnail item is subscripted first; with any other
  content type the entry is created and the item counted.
\<close>

definition bulk_item ::
  "world \<Rightarrow> string \<Rightarrow> int \<Rightarrow> string option \<Rightarrow> int \<Rightarrow> pyval \<Rightarrow> bool \<times> world" where
  "bulk_item w ct c sd video_number' item =
     (case create_upload_entry w c sd video_number' of (r, w1) \<Rightarrow>
        (case r of
           Inl e \<Rightarrow> (False, w1)
         | Inr row \<Rightarrow>
             (case sd of
                None \<Rightarrow> (False, w1)
              | Some d \<Rightarrow>
                  if ct = ''script'' then
                    (case update_script w1 c d video_number' item of (r2, w2) \<Rightarrow>
                       (case r2 of Inl e \<Rightarrow> (False, w2) | Inr row2 \<Rightarrow> (True, w2)))
                  else if ct = ''thumbnail'' then
                    (case item of
                       PyFile f u \<Rightarrow>
                         (case update_thumbnail w1 c d video_number' f u of (r2, w2) \<Rightarrow>
                            (case r2 of Inl e \<Rightarrow> (False, w2) | Inr row2 \<Rightarrow> (True, w2)))
                     | PyStr t \<Rightarrow> (False, w1))
                  else (True, w1))))"

text \<open>\<^verbatim>\<open>for i, item in enumerate(items[:4])\<close>, with \<open>i\<close> the index of the next item.\<close>

fun bulk_loop ::
  "world \<Rightarrow> string \<Rightarrow> int \<Rightarrow> string option \<Rightarrow> int \<Rightarrow> nat \<Rightarrow> pyval list \<Rightarrow> nat \<times> world" where
  "bulk_loop w ct c sd i success_count [] = (success_count, w)"
| "bulk_loop w ct c sd i success_count (item # items) =
     (case bulk_item w ct c sd (i + 1) item of (ok, w1) \<Rightarrow>
        bulk_loop w1 ct c sd (i + 1) (if ok then success_count + 1 else success_count) items)"

definition process_bulk :: "world \<Rightarrow> bulk_selection \<Rightarrow> nat \<times> world" where
  "process_bulk w state =
     (case get_channel w (bulk_selected_channel state) of (channel, w1) \<Rightarrow>
        (case channel of
           None \<Rightarrow> (0, w1)
         | Some ch \<Rightarrow>
             bulk_loop w1 (bulk_content_type state) (ch_id ch) (bulk_selected_date state) 0 0
               (take 4 (bulk_items state))))"

definition handle_bulk_callback ::
  "(string \<Rightarrow> bool) \<Rightarrow> world \<Rightarrow> int \<Rightarrow> string \<Rightarrow> bool \<times> world" where
  "handle_bulk_callback isodate w0 user_id data =
     (case chat w0 of (answered, w) \<Rightarrow>
        if \<not> answered then (False, w)
        else
     (case bulk_selections w user_id of
        None \<Rightarrow> (False, w)
      | Some state \<Rightarrow>
          if startswith data ''date:'' then
            (case split1 data of
               None \<Rightarrow> (False, w)
             | Some d \<Rightarrow>
                 (case get_channel_buttons
                         (w\<lparr>bulk_selections := (bulk_selections w)(user_id \<mapsto>
                              state\<lparr>bulk_selected_date := Some d, bulk_step := ''channel''\<rparr>)\<rparr>)
                  of (keyboard, w1) \<Rightarrow> chat w1))
          else if startswith data ''channel:'' then
            (case split1 data of
               None \<Rightarrow> (False, w)
             | Some c \<Rightarrow>
                 (let state' = state\<lparr>bulk_selected_channel := Some c\<rparr> in
                  case process_bulk
                         (w\<lparr>bulk_selections := (bulk_selections w)(user_id \<mapsto> state')\<rparr>) state'
                  of (success_count, w1) \<Rightarrow>
                    if \<not> (case bulk_selected_date state' of None \<Rightarrow> False | Some d \<Rightarrow> isodate d)
                    then (False, w1)
                    else (case chat w1 of (replied, w2) \<Rightarrow>
                            if \<not> replied then (False, w2)
                            else (True, w2\<lparr>bulk_selections := (bulk_selections w2)(user_id := None)\<rparr>))))
          else (False, w)))"

section \<open>ScheduleManager\<close>

text \<open>\<^verbatim>\<open>str(n)\<close> for the integer of an f-string such as \<^verbatim>\<open>f"V{video_num} script"\<close>.\<close>

fun str_nat :: "nat \<Rightarrow> string" where
  "str_nat n =
     (if n < 10 then [''0123456789'' ! n]
      else str_nat (n div 10) @ [''0123456789'' ! (n mod 10)])"

declare str_nat.simps [simp del]

definition str_int :: "int \<Rightarrow> string" where
  "str_int i = (if i < 0 then ''-'' @ str_nat (nat (- i)) else str_nat (nat i))"

definition select_schedules :: "world \<Rightarrow> string \<Rightarrow> (py_error + schedule list) \<times> world" where
  "select_schedules w d =
     (case execute w of (ok, w1) \<Rightarrow>
        if \<not> ok then (Inl APIError, w1)
        else (Inr (filter (\<lambda>s. sched_upload_date s = d) (upload_schedules (db w1))), w1))"

definition select_uploads :: "world \<Rightarrow> string \<Rightarrow> (py_error + upload list) \<times> world" where
  "select_uploads w d =
     (case execute w of (ok, w1) \<Rightarrow>
        if \<not> ok then (Inl APIError, w1)
        else (Inr (filter (\<lambda>u. upload_date u = d) (daily_uploads (db w1))), w1))"

text \<open>
  \<^verbatim>\<open>initialize_date\<close> calls the stored procedure \<^verbatim>\<open>create_daily_uploads_skeleton\<close>, which
  lives in the remote store and not in this repository. It is the parameter \<open>skeleton\<close>,
  any function on the tables; a failure of the call is caught and gives \<^verbatim>\<open>False\<close>.
\<close>

definition initialize_date ::
  "(string \<Rightarrow> tables \<Rightarrow> tables) \<Rightarrow> world \<Rightarrow> string \<Rightarrow> bool \<times> world" where
  "initialize_date skeleton w target_date =
     (case execute w of (ok, w1) \<Rightarrow>
        if \<not> ok then (False, w1)
        else (True, w1\<lparr>db := skeleton target_date (db w1)\<rparr>))"

text \<open>
  The status of a date. \<open>completion_pct\<close> is the percentage before
  \<^verbatim>\<open>round(completion_pct, 1)\<close>, in exact arithmetic: the source computes it in binary
  floating point and compares it with 100, 80, 50 and 0, and the two agree on these
  comparisons for every row count a response can hold. The emoji that goes with each
  tier is left out. A dictionary keeps its keys in insertion order, so the per-channel
  breakdown is an association list.
\<close>

record channel_status =
  cs_total :: nat
  cs_completed :: nat
  cs_scripts :: nat
  cs_thumbnails :: nat
  cs_missing :: "string list"

record day_status =
  ds_date :: string
  status_text :: string
  completion_pct :: rat
  total_videos :: nat
  videos_completed :: nat
  scripts_ready :: nat
  thumbnails_ready :: nat
  all_complete :: bool
  ds_channels :: "(string \<times> channel_status) list"
  ds_uploads :: "upload list"
  ds_schedule :: "schedule option"

definition status_tier :: "rat \<Rightarrow> string" where
  "status_tier pct =
     (if pct = 100 then ''READY''
      else if pct \<ge> 80 then ''ALMOST READY''
      else if pct \<ge> 50 then ''IN PROGRESS''
      else if pct > 0 then ''STARTED''
      else ''NOT STARTED'')"

text \<open>The entries one row adds to its channel's \<^verbatim>\<open>'missing'\<close> list.\<close>

definition slot_missing :: "upload \<Rightarrow> string list" where
  "slot_missing u =
     (if script_status u = ''pending''
      then [''V'' @ str_int (video_number u) @ '' script''] else [])
     @ (if thumbnail_status u = ''pending''
        then [''V'' @ str_int (video_number u) @ '' thumbnail''] else [])"

definition empty_channel_status :: channel_status where
  "empty_channel_status =
     \<lparr>cs_total = 0, cs_completed = 0, cs_scripts = 0, cs_thumbnails = 0, cs_missing = []\<rparr>"

text \<open>One pass of the loop "Group by channel".\<close>

definition add_upload ::
  "(string \<times> channel_status) list \<Rightarrow> upload \<Rightarrow> (string \<times> channel_status) list" where
  "add_upload channels_status u =
     (let cs = (case map_of channels_status (channel_name u) of
                  None \<Rightarrow> empty_channel_status
                | Some c \<Rightarrow> c)
      in AList.update (channel_name u)
           (cs\<lparr>cs_total := cs_total cs + 1,
               cs_completed := cs_completed cs + (if video_status u = ''completed'' then 1 else 0),
               cs_scripts := cs_scripts cs
                  + (if script_status u \<in> {''received'', ''processed''} then 1 else 0),
               cs_thumbnails := cs_thumbnails cs
                  + (if thumbnail_status u = ''received'' then 1 else 0),
               cs_missing := cs_missing cs @ slot_missing u\<rparr>)
           channels_status)"

text \<open>
  The body of \<^verbatim>\<open>get_day_status\<close> from "Calculate stats" to the returned dictionary,
  for the schedule row and the upload rows it has fetched.
\<close>

definition day_status_of :: "string \<Rightarrow> schedule option \<Rightarrow> upload list \<Rightarrow> day_status" where
  "day_status_of target_date sched ups =
     (let total = length ups;
          scripts = length (filter (\<lambda>u. script_status u \<in> {''received'', ''processed''}) ups);
          thumbs = length (filter (\<lambda>u. thumbnail_status u = ''received'') ups);
          completed = length (filter (\<lambda>u. video_status u = ''completed'') ups);
          pct = (if total > 0 then of_nat completed / of_nat total * 100 else 0)
      in \<lparr>ds_date = target_date,
          status_text = status_tier pct,
          completion_pct = pct,
          total_videos = total,
          videos_completed = completed,
          scripts_ready = scripts,
          thumbnails_ready = thumbs,
          all_complete = (case sched of None \<Rightarrow> False | Some s \<Rightarrow> sched_all_complete s),
          ds_channels = foldl add_upload [] ups,
          ds_uploads = ups,
          ds_schedule = sched\<rparr>)"

text \<open>
  \<^verbatim>\<open>get_day_status\<close>: \<open>None\<close> is the empty dictionary the \<^verbatim>\<open>except\<close> clause returns.
\<close>

definition get_day_status ::
  "(string \<Rightarrow> tables \<Rightarrow> tables) \<Rightarrow> world \<Rightarrow> string \<Rightarrow> day_status option \<times> world" where
  "get_day_status skeleton w target_date =
     (case select_schedules w target_date of (r1, w1) \<Rightarrow>
        (case r1 of
           Inl e \<Rightarrow> (None, w1)
         | Inr rows1 \<Rightarrow>
             (case (if rows1 = []
                    then select_schedules (snd (initialize_date skeleton w1 target_date)) target_date
                    else (Inr rows1, w1)) of (r2, w2) \<Rightarrow>
                (case r2 of
                   Inl e \<Rightarrow> (None, w2)
                 | Inr rows2 \<Rightarrow>
                     (case select_uploads w2 target_date of (r3, w3) \<Rightarrow>
                        (case r3 of
                           Inl e \<Rightarrow> (None, w3)
                         | Inr ups \<Rightarrow>
                             (Some (day_status_of target_date
                                      (case rows2 of [] \<Rightarrow> None | s # _ \<Rightarrow> Some s) ups),
                              w3)))))))"

record incomplete_item =
  item_channel_name :: string
  item_video_number :: int
  item_missing :: "string list"
  item_upload :: upload

definition issues_of :: "upload \<Rightarrow> string list" where
  "issues_of u =
     (if script_status u = ''pending'' then [''script''] else [])
     @ (if thumbnail_status u = ''pending'' then [''thumbnail''] else [])
     @ (if video_status u \<noteq> ''completed'' then [''video''] else [])"

definition get_incomplete_items_for_date :: "world \<Rightarrow> string \<Rightarrow> incomplete_item list \<times> world" where
  "get_incomplete_items_for_date w target_date =
     (case select_uploads w target_date of (r, w1) \<Rightarrow>
        (case r of
           Inl e \<Rightarrow> ([], w1)
         | Inr data \<Rightarrow>
             if data = [] then ([], w1)
             else (map (\<lambda>u. \<lparr>item_channel_name = channel_name u,
                               item_video_number = video_number u,
                               item_missing = issues_of u,
                               item_upload = u\<rparr>)
                     (filter (\<lambda>u. issues_of u \<noteq> []) data), w1)))"

text \<open>
  \<^verbatim>\<open>DailyUploadManager.get_incomplete_items\<close>: the same question asked of the store, with
  the filter \<^verbatim>\<open>script_status.eq.pending,thumbnail_status.eq.pending,video_status.neq.completed\<close>
  joined by \<^verbatim>\<open>or_\<close>.
\<close>

definition get_incomplete_items :: "world \<Rightarrow> string \<Rightarrow> upload list \<times> world" where
  "get_incomplete_items w d =
     (case execute w of (ok, w1) \<Rightarrow>
        if \<not> ok then ([], w1)
        else (filter (\<lambda>u. upload_date u = d \<and>
                (script_status u = ''pending'' \<or> thumbnail_status u = ''pending''
                 \<or> video_status u \<noteq> ''completed''))
                (daily_uploads (db w1)), w1))"

section \<open>ReminderManager\<close>

text \<open>
  \<^verbatim>\<open>now - last_dt\<close> in microseconds; mixing a naive and an aware datetime raises
  \<^verbatim>\<open>TypeError\<close>. \<^verbatim>\<open>total_seconds()\<close> of a difference in seconds.
\<close>

definition datetime_sub :: "datetime \<Rightarrow> datetime \<Rightarrow> py_error + int" where
  "datetime_sub a b =
     (case a of
        Naive x \<Rightarrow> (case b of Naive y \<Rightarrow> Inr (x - y) | Aware y \<Rightarrow> Inl TypeError)
      | Aware x \<Rightarrow> (case b of Naive y \<Rightarrow> Inl TypeError | Aware y \<Rightarrow> Inr (x - y)))"

definition total_seconds :: "int \<Rightarrow> rat" where
  "total_seconds micros = of_int micros / 1000000"

text \<open>
  \<open>tomorrow\<close> is \<^verbatim>\<open>(date.today() + timedelta(days=1)).isoformat()\<close> and \<open>today\<close> is
  \<^verbatim>\<open>date.today().isoformat()\<close>. The outer \<^verbatim>\<open>except\<close> of both checks returns
  \<^verbatim>\<open>(False, [])\<close> and \<^verbatim>\<open>(False, {})\<close>.
\<close>

definition should_send_tomorrow_reminder ::
  "world \<Rightarrow> string \<Rightarrow> (bool \<times> incomplete_item list) \<times> world" where
  "should_send_tomorrow_reminder w tomorrow =
     (case get_incomplete_items_for_date w tomorrow of (incomplete, w1) \<Rightarrow>
        if incomplete = [] then ((False, []), w1)
        else
          (case select_schedules w1 tomorrow of (r, w2) \<Rightarrow>
             (case r of
                Inl e \<Rightarrow> ((False, []), w2)
              | Inr rows \<Rightarrow>
                  (case rows of
                     [] \<Rightarrow> ((True, incomplete), w2)
                   | s # _ \<Rightarrow>
                       (case last_reminder_sent_at s of
                          None \<Rightarrow> ((True, incomplete), w2)
                        | Some last_dt \<Rightarrow>
                            (case datetime_sub (Naive (utcnow w2)) last_dt of
                               Inl e \<Rightarrow> ((False, []), w2)
                             | Inr micros \<Rightarrow>
                                 if total_seconds micros / 60 < 30
                                 then ((False, incomplete), w2)
                                 else ((True, incomplete), w2)))))))"

definition should_send_today_reminder ::
  "(string \<Rightarrow> tables \<Rightarrow> tables) \<Rightarrow> world \<Rightarrow> string \<Rightarrow> (bool \<times> day_status option) \<times> world" where
  "should_send_today_reminder skeleton w today =
     (case get_day_status skeleton w today of (status, w1) \<Rightarrow>
        (case status of
           None \<Rightarrow> ((False, None), w1)
         | Some st \<Rightarrow>
             if \<not> all_complete st then ((False, None), w1)
             else
               (case select_schedules w1 today of (r, w2) \<Rightarrow>
                  (case r of
                     Inl e \<Rightarrow> ((False, None), w2)
                   | Inr rows \<Rightarrow>
                       (case rows of
                          [] \<Rightarrow> ((True, Some st), w2)
                        | s # _ \<Rightarrow>
                            (case last_reminder_sent_at s of
                               None \<Rightarrow> ((True, Some st), w2)
                             | Some last_dt \<Rightarrow>
                                 if reminder_type s \<noteq> Some ''ready'' then ((True, Some st), w2)
                                 else
                                   (case datetime_sub (Naive (utcnow w2)) last_dt of
                                      Inl e \<Rightarrow> ((False, None), w2)
                                    | Inr micros \<Rightarrow>
                                        if total_seconds micros / 3600 < 3
                                        then ((False, Some st), w2)
                                        else ((True, Some st), w2))))))))"

text \<open>
  \<^verbatim>\<open>log_reminder\<close> appends a row to \<^verbatim>\<open>reminder_logs\<close> (the message text is left out),
  then overwrites the marker of the date's schedule row with
  \<^verbatim>\<open>datetime.utcnow().isoformat()\<close>, a string without offset, and the reminder's type.
\<close>

definition log_reminder ::
  "world \<Rightarrow> string \<Rightarrow> string \<Rightarrow> nat \<Rightarrow> string list \<Rightarrow> bool \<times> world" where
  "log_reminder w reminder_type' upload_date' incomplete_count' channels_mentioned' =
     (case execute w of (ok1, w1) \<Rightarrow>
        if \<not> ok1 then (False, w1)
        else
          (case execute
                  (w1\<lparr>db := (db w1)\<lparr>reminder_logs := reminder_logs (db w1) @
                        [\<lparr>log_reminder_type = reminder_type', log_upload_date = upload_date',
                          incomplete_count = incomplete_count',
                          channels_mentioned = channels_mentioned'\<rparr>]\<rparr>\<rparr>)
           of (ok2, w2) \<Rightarrow>
             if \<not> ok2 then (False, w2)
             else (True,
                   w2\<lparr>db := (db w2)\<lparr>upload_schedules :=
                         map (\<lambda>s. if sched_upload_date s = upload_date'
                                   then s\<lparr>last_reminder_sent_at := Some (Naive (utcnow w2)),
                                          reminder_type := Some reminder_type'\<rparr>
                                   else s)
                           (upload_schedules (db w2))\<rparr>\<rparr>)))"

text \<open>
  The two interval jobs of \<^verbatim>\<open>OrchestratorBot\<close>; the result says whether the reminder
  was broadcast. The type they log is the literal of the source.
\<close>

definition job_tomorrow_incomplete :: "world \<Rightarrow> string \<Rightarrow> bool \<times> world" where
  "job_tomorrow_incomplete w tomorrow =
     (case should_send_tomorrow_reminder w tomorrow of ((should_send, incomplete), w1) \<Rightarrow>
        if \<not> should_send \<or> incomplete = [] then (False, w1)
        else (True, snd (log_reminder w1 ''tomorrow_incomplete'' tomorrow (length incomplete)
                           (remdups (map item_channel_name incomplete)))))"

definition job_today_ready ::
  "(string \<Rightarrow> tables \<Rightarrow> tables) \<Rightarrow> world \<Rightarrow> string \<Rightarrow> bool \<times> world" where
  "job_today_ready skeleton w today =
     (case should_send_today_reminder skeleton w today of ((should_send, status), w1) \<Rightarrow>
        if \<not> should_send \<or> status = None then (False, w1)
        else (True, snd (log_reminder w1 ''today_ready'' today 0 [])))"

section \<open>GDriveFolderManager\<close>

text \<open>
  \<^verbatim>\<open>date.today() - timedelta(days=days_old)\<close> on ordinals. \<^verbatim>\<open>timedelta\<close> raises
  \<^verbatim>\<open>OverflowError\<close> beyond 999999999 days, and the subtraction raises it when the
  result is no date of the years 1 to 9999.
\<close>

definition date_minus_days :: "int \<Rightarrow> int \<Rightarrow> py_error + int" where
  "date_minus_days today days =
     (if \<bar>days\<bar> > 999999999 then Inl OverflowError
      else if today - days < 1 \<or> 3652059 < today - days then Inl OverflowError
      else Inr (today - days))"

text \<open>
  The module \<^verbatim>\<open>gdrive_folder_manager\<close> imports \<^verbatim>\<open>date\<close> and \<^verbatim>\<open>timedelta\<close> from
  \<^verbatim>\<open>datetime\<close> and nothing else of it, and binds the name \<^verbatim>\<open>datetime\<close> nowhere. The
  expression \<^verbatim>\<open>datetime.utcnow()\<close> in the payload of \<^verbatim>\<open>archive_old_folders\<close> therefore
  raises \<^verbatim>\<open>NameError\<close> whenever it is evaluated.
\<close>

definition gdrive_datetime_utcnow :: "world \<Rightarrow> py_error + int" where
  "gdrive_datetime_utcnow w = Inl NameError"

text \<open>
  \<^verbatim>\<open>archive_old_folders\<close>. The payload of the update is built before the request is
  sent; every exception is caught by the method's \<^verbatim>\<open>except\<close>, which logs and returns 0.
\<close>

definition archive_old_folders :: "world \<Rightarrow> int \<Rightarrow> int \<Rightarrow> nat \<times> world" where
  "archive_old_folders w today days_old =
     (case date_minus_days today days_old of
        Inl e \<Rightarrow> (0, w)
      | Inr cutoff_date \<Rightarrow>
          (case gdrive_datetime_utcnow w of
             Inl e \<Rightarrow> (0, w)
           | Inr now \<Rightarrow>
               (case execute w of (ok, w1) \<Rightarrow>
                  if \<not> ok then (0, w1)
                  else
                    (length (filter (\<lambda>f. folder_date f < cutoff_date \<and> folder_is_active f)
                               (gdrive_folders (db w1))),
                     w1\<lparr>db := (db w1)\<lparr>gdrive_folders :=
                           map (\<lambda>f. if folder_date f < cutoff_date \<and> folder_is_active f
                                     then f\<lparr>folder_is_active := False, archived_at := Some now\<rparr>
                                     else f)
                             (gdrive_folders (db w1))\<rparr>\<rparr>))))"

section \<open>Notions for the statements\<close>

text \<open>The commits a journal records: the runs of \<^verbatim>\<open>_process_selection\<close>.\<close>

fun is_commit :: "event \<Rightarrow> bool" where
  "is_commit (ProcessSelection d c v) = True"
| "is_commit e = False"

definition commits :: "event list \<Rightarrow> nat" where
  "commits js = length (filter is_commit js)"

text \<open>The chosen date of a wizard state, if any, is one \<^verbatim>\<open>fromisoformat\<close> reads.\<close>

definition date_ok :: "(string \<Rightarrow> bool) \<Rightarrow> selection \<Rightarrow> bool" where
  "date_ok isodate s = (case selected_date s of None \<Rightarrow> True | Some d \<Rightarrow> isodate d)"

text \<open>
  The wizard's steps are, in order, date, channel and video: the step before a step.
\<close>

definition previous_step :: "string \<Rightarrow> string option" where
  "previous_step st =
     (if st = ''channel'' then Some ''date''
      else if st = ''video'' then Some ''channel''
      else None)"

text \<open>The rows of one slot in \<^verbatim>\<open>daily_uploads\<close>, and the rows of all other slots.\<close>

definition slot_rows :: "int \<Rightarrow> string \<Rightarrow> int \<Rightarrow> upload list \<Rightarrow> upload list" where
  "slot_rows c d n rows = filter (same_slot c d n) rows"

definition other_rows :: "int \<Rightarrow> string \<Rightarrow> int \<Rightarrow> upload list \<Rightarrow> upload list" where
  "other_rows c d n rows = filter (\<lambda>r. \<not> same_slot c d n r) rows"

text \<open>
  The chat platform accepts the next \<open>k\<close> calls: none of the next \<open>k\<close> flags is set.
\<close>

definition chat_ok :: "nat \<Rightarrow> world \<Rightarrow> bool" where
  "chat_ok k w = (True \<notin> set (take k (chat_faults w)))"


text \<open>
  What a channel's entry of the breakdown should hold once further rows of the channel
  are counted into it: the statement to compare the loop with.
\<close>

definition tally :: "channel_status \<Rightarrow> upload list \<Rightarrow> channel_status" where
  "tally cs rows =
     \<lparr>cs_total = cs_total cs + length rows,
      cs_completed = cs_completed cs + length (filter (\<lambda>u. video_status u = ''completed'') rows),
      cs_scripts = cs_scripts cs
         + length (filter (\<lambda>u. script_status u \<in> {''received'', ''processed''}) rows),
      cs_thumbnails = cs_thumbnails cs
         + length (filter (\<lambda>u. thumbnail_status u = ''received'') rows),
      cs_missing = cs_missing cs @ concat (map slot_missing rows)\<rparr>"

section \<open>Example data\<close>

text \<open>Two channels and an empty store, for the concrete runs below.\<close>

definition chan_GYH :: channel where
  "chan_GYH = \<lparr>ch_id = 1, ch_name = ''GYH'', ch_is_active = True\<rparr>"

definition chan_BI :: channel where
  "chan_BI = \<lparr>ch_id = 2, ch_name = ''BI'', ch_is_active = True\<rparr>"

definition world0 :: world where
  "world0 =
     \<lparr>db = \<lparr>channels = [chan_BI, chan_GYH], daily_uploads = [], upload_schedules = [],
            reminder_logs = [], gdrive_folders = []\<rparr>,
      faults = [], chat_faults = [], journal = [], selections = (\<lambda>u. None), bulk_selections = (\<lambda>u. None),
      utcnow = 0\<rparr>"

text \<open>A store that holds the given upload rows, schedule rows and folders.\<close>

definition world_with :: "upload list \<Rightarrow> schedule list \<Rightarrow> folder list \<Rightarrow> world" where
  "world_with ups scheds folders =
     world0\<lparr>db := (db world0)\<lparr>daily_uploads := ups, upload_schedules := scheds,
                                gdrive_folders := folders\<rparr>\<rparr>"

text \<open>A slot of GYH on 2025-01-21 whose script and thumbnail have arrived.\<close>

definition slot_GYH_2 :: upload where
  "slot_GYH_2 =
     (pending_row 1 ''GYH'' ''2025-01-21'' 2)
       \<lparr>script_status := ''received'', thumbnail_status := ''received'',
        script_text := Some (PyStr ''the script''), thumbnail_gdrive_id := Some ''file-7''\<rparr>"

text \<open>Two date folders, of 2025-01-11 and of 2025-01-21 (ordinals 739262 and 739272).\<close>

definition old_folder :: folder where
  "old_folder =
     \<lparr>folder_id = ''date-2025-01-11'', folder_date = 739262, folder_is_active = True,
      archived_at = None\<rparr>"

definition new_folder :: folder where
  "new_folder =
     \<lparr>folder_id = ''date-2025-01-21'', folder_date = 739272, folder_is_active = True,
      archived_at = None\<rparr>"

text \<open>
  A slot of BI on 2025-01-21 whose script, thumbnail and video are done and whose audio
  is still pending.
\<close>

definition slot_BI_1 :: upload where
  "slot_BI_1 =
     (pending_row 2 ''BI'' ''2025-01-21'' 1)
       \<lparr>script_status := ''processed'', thumbnail_status := ''received'',
        video_status := ''completed''\<rparr>"

text \<open>
  The slot of the first end-to-end scenario: (ChannelX, 2025-01-21, 2) with the script
  pending, the thumbnail received and the video pending.
\<close>

definition slot_X_2 :: upload where
  "slot_X_2 = (pending_row 3 ''ChannelX'' ''2025-01-21'' 2)\<lparr>thumbnail_status := ''received''\<rparr>"

text \<open>
  A day on which every slot of both channels is done, its schedule row with the store's
  completion flag set and no reminder logged yet, at 2025-01-21 10:00:00 UTC
  (1737453600 seconds after the epoch, in microseconds).
\<close>

definition done_row :: "int \<Rightarrow> string \<Rightarrow> int \<Rightarrow> upload" where
  "done_row c nm n =
     (pending_row c nm ''2025-01-21'' n)
       \<lparr>script_status := ''processed'', thumbnail_status := ''received'',
        video_status := ''completed'', audio_status := ''completed''\<rparr>"

definition ready_rows :: "upload list" where
  "ready_rows = map (done_row 1 ''GYH'') [1, 2, 3, 4] @ map (done_row 2 ''BI'') [1, 2, 3, 4]"

definition sched_of :: "bool \<Rightarrow> datetime option \<Rightarrow> string option \<Rightarrow> schedule" where
  "sched_of flag marker rtype =
     \<lparr>sched_upload_date = ''2025-01-21'', sched_all_complete = flag,
      last_reminder_sent_at = marker, reminder_type = rtype\<rparr>"

definition ten_o_clock :: int where
  "ten_o_clock = 1737453600000000"

definition ready_world :: world where
  "ready_world = (world_with ready_rows [sched_of True None None] [])\<lparr>utcnow := ten_o_clock\<rparr>"

text \<open>
  A day with one outstanding slot whose reminder was logged at 10:00:00 UTC, seen
  31 minutes later; the marker is given as the store returns it.
\<close>

definition reminded_world :: "datetime \<Rightarrow> world" where
  "reminded_world marker =
     (world_with [slot_X_2] [sched_of False (Some marker) (Some ''tomorrow_incomplete'')] [])
       \<lparr>utcnow := ten_o_clock + 31 * 60 * 1000000\<rparr>"

text \<open>
  A bulk submission of five scripts for GYH on 2025-01-21, in a world whose fourth
  remote call fails: the call that creates the entry of the second item.
\<close>

definition bulk_state :: bulk_selection where
  "bulk_state =
     \<lparr>bulk_content_type = ''script'',
      bulk_items = [PyStr ''s1'', PyStr ''s2'', PyStr ''s3'', PyStr ''s4'', PyStr ''s5''],
      bulk_step = ''channel'', bulk_selected_date = Some ''2025-01-21'',
      bulk_selected_channel = Some ''GYH''\<rparr>"

definition faulty_world :: world where
  "faulty_world = world0\<lparr>faults := [False, False, False, True]\<rparr>"

section \<open>Slot entries: creation and updates\<close>

lemmas example_defs =
  world_with_def world0_def chan_GYH_def chan_BI_def slot_GYH_2_def pending_row_def

lemma execute_no_faults: "faults w = [] \<Longrightarrow> execute w = (True, w)"
  by (simp add: execute_def)

lemma execute_frame:
  "execute w = (ok, w1) \<Longrightarrow>
     db w1 = db w \<and> journal w1 = journal w \<and> selections w1 = selections w
     \<and> bulk_selections w1 = bulk_selections w \<and> utcnow w1 = utcnow w
     \<and> chat_faults w1 = chat_faults w"
  by (auto simp: execute_def split: list.splits)

lemma journaled_frame:
  "journaled call rw = (r, w') \<Longrightarrow>
     \<exists>w1. rw = (r, w1) \<and> w' = w1\<lparr>journal := journal w1 @ [call (returned r)]\<rparr>"
  by (auto simp: journaled_def split: prod.splits)

text \<open>
  Creating an entry for a key that is there adds no row and leaves the keys as they
  were.
\<close>

lemma upsert_upload_no_duplicate:
  assumes "list_ex (same_slot (channel_id data) (upload_date data) (video_number data)) rows"
  shows "length (upsert_upload rows data) = length rows
         \<and> map channel_id (upsert_upload rows data) = map channel_id rows
         \<and> map upload_date (upsert_upload rows data) = map upload_date rows
         \<and> map video_number (upsert_upload rows data) = map video_number rows"
  using assms by (simp add: upsert_upload_def comp_def cong: map_cong)

text \<open>
  An update changes, on the rows of its slot, the columns of its patch and nothing else:
  here for the status columns an update does not name.
\<close>

lemma patch_slot_rows:
  "patch_slot w c d n f = (r, w') \<Longrightarrow>
     daily_uploads (db w') = daily_uploads (db w)
     \<or> daily_uploads (db w') = map (\<lambda>u. if same_slot c d n u then f u else u) (daily_uploads (db w))"
  by (auto simp: patch_slot_def Let_def execute_def split: list.splits if_splits)

lemma update_script_frame:
  assumes "update_script w c d n t = (r, w')"
  shows "map thumbnail_status (daily_uploads (db w')) = map thumbnail_status (daily_uploads (db w))
         \<and> map video_status (daily_uploads (db w')) = map video_status (daily_uploads (db w))
         \<and> map audio_status (daily_uploads (db w')) = map audio_status (daily_uploads (db w))"
proof -
  from journaled_frame [OF assms [unfolded update_script_def]] obtain w1 where
    p: "patch_slot w c d n
          (\<lambda>u. u\<lparr>script_text := Some t, script_status := ''received'',
                 script_received_at := Some (utcnow w), updated_at := Some (utcnow w)\<rparr>) = (r, w1)"
    and w': "db w' = db w1"
    by auto
  from patch_slot_rows [OF p] show ?thesis
    unfolding w' by (auto simp: comp_def cong: map_cong)
qed

lemma update_thumbnail_frame:
  assumes "update_thumbnail w c d n g u = (r, w')"
  shows "map script_status (daily_uploads (db w')) = map script_status (daily_uploads (db w))
         \<and> map video_status (daily_uploads (db w')) = map video_status (daily_uploads (db w))
         \<and> map audio_status (daily_uploads (db w')) = map audio_status (daily_uploads (db w))"
proof -
  from journaled_frame [OF assms [unfolded update_thumbnail_def]] obtain w1 where
    p: "patch_slot w c d n
          (\<lambda>x. x\<lparr>thumbnail_gdrive_id := Some g, thumbnail_gdrive_url := u,
                 thumbnail_status := ''received'', updated_at := Some (utcnow w)\<rparr>) = (r, w1)"
    and w': "db w' = db w1"
    by auto
  from patch_slot_rows [OF p] show ?thesis
    unfolding w' by (auto simp: comp_def cong: map_cong)
qed

lemma update_video_status_frame:
  assumes "update_video_status w c d n status g u e = (r, w')"
  shows "map script_status (daily_uploads (db w')) = map script_status (daily_uploads (db w))
         \<and> map thumbnail_status (daily_uploads (db w')) = map thumbnail_status (daily_uploads (db w))
         \<and> map audio_status (daily_uploads (db w')) = map audio_status (daily_uploads (db w))"
proof -
  from journaled_frame [OF assms [unfolded update_video_status_def]] obtain w1 f where
    p: "patch_slot w c d n f = (r, w1)"
    and f: "\<And>x. script_status (f x) = script_status x \<and> thumbnail_status (f x) = thumbnail_status x
               \<and> audio_status (f x) = audio_status x"
    and w': "db w' = db w1"
    by auto
  from patch_slot_rows [OF p] show ?thesis
    unfolding w' by (auto simp: comp_def f cong: map_cong)
qed

text \<open>
  The wizard creates the entry anew before every update ("Ensure upload entry exists").
  Committing a thumbnail to a slot whose script had been received therefore leaves the
  script status at \<^verbatim>\<open>'pending'\<close>, with the script text still stored.
\<close>

lemma thumbnail_after_script_resets_script:
  "map (\<lambda>u. (script_status u, script_text u, thumbnail_status u))
     (daily_uploads (db (snd (process_selection (world_with [slot_GYH_2] [] [])
        \<lparr>content_type = ''thumbnail'', content_data = PyFile ''file-9'' None, step = ''video'',
         selected_date = Some ''2025-01-21'', selected_channel = Some ''GYH'',
         selected_video = Some 2, message_id = None\<rparr>))))
     = [(''pending'', Some (PyStr ''the script''), ''received'')]"
  by (simp add: example_defs process_selection_def get_channel_def create_upload_entry_def
        update_thumbnail_def patch_slot_def execute_def upsert_upload_def same_slot_def Let_def
        journaled_def returned_def)

text \<open>
  Claim C5. Creating an entry for a key that exists must not duplicate the row, and
  re-creating or updating a slot must never alter the status fields it does not name.
  The row is not duplicated and the updates keep the other columns (the lemmas above),
  but re-creating does alter them: \<^verbatim>\<open>create_upload_entry\<close> sends the four statuses as
  \<^verbatim>\<open>'pending'\<close> in an upsert that merges, so a slot whose script and thumbnail had been
  received is back at \<^verbatim>\<open>'pending'\<close> for both, with its script text still stored.
\<close>

theorem create_upload_entry_resets_statuses:
  "daily_uploads (db (snd (create_upload_entry (world_with [slot_GYH_2] [] []) 1
                             (Some ''2025-01-21'') 2)))
     = [slot_GYH_2\<lparr>script_status := ''pending'', thumbnail_status := ''pending''\<rparr>]
   \<and> script_status slot_GYH_2 = ''received'' \<and> thumbnail_status slot_GYH_2 = ''received''"
  by (simp add: example_defs create_upload_entry_def execute_def upsert_upload_def
        same_slot_def Let_def journaled_def returned_def)

section \<open>Archiving old folders\<close>

text \<open>
  Claim C9: for every \<open>days_old\<close>, \<^verbatim>\<open>archive_old_folders\<close> marks inactive every active
  folder record dated before today minus \<open>days_old\<close> days and returns their number. The
  method's docstring says the same ("Archive folders older than specified days",
  returning the "Number of folders archived"), and its body is written to do it; but the
  payload of its update names \<^verbatim>\<open>datetime\<close>, which the module never imports. Building the
  payload raises \<^verbatim>\<open>NameError\<close>, the \<^verbatim>\<open>except\<close> returns 0, and no request reaches the
  store: for every store, day and \<open>days_old\<close> the method returns 0 and leaves the world,
  its folder records and its pending remote failures included, as it was.
\<close>

theorem archive_old_folders_archives_nothing:
  "archive_old_folders w today days_old = (0, w)"
  by (simp add: archive_old_folders_def gdrive_datetime_utcnow_def split: sum.splits)

text \<open>
  On 2025-01-21 with \<open>days_old = 1\<close> the cutoff is 2025-01-20; the active folder of
  2025-01-11 is dated before it and stays active, and the count returned is 0, not 1.
\<close>

theorem archive_old_folders_archives_nothing_witness:
  "archive_old_folders (world_with [] [] [old_folder, new_folder]) 739272 1
     = (0, world_with [] [] [old_folder, new_folder])
   \<and> date_minus_days 739272 1 = Inr 739271
   \<and> length (filter (\<lambda>f. folder_is_active f \<and> folder_date f < 739271)
               (gdrive_folders (db (world_with [] [] [old_folder, new_folder])))) = 1
   \<and> gdrive_folders (db (snd (archive_old_folders
         (world_with [] [] [old_folder, new_folder]) 739272 1))) = [old_folder, new_folder]
   \<and> folder_is_active old_folder \<and> folder_date old_folder < 739271"
  using archive_old_folders_archives_nothing [of "world_with [] [] [old_folder, new_folder]" 739272 1]
  by (simp add: date_minus_days_def example_defs old_folder_def new_folder_def)

section \<open>Incomplete items of a date\<close>

lemma issues_of_nonempty:
  "issues_of u \<noteq> [] \<longleftrightarrow>
     script_status u = ''pending'' \<or> thumbnail_status u = ''pending'' \<or> video_status u \<noteq> ''completed''"
  by (simp add: issues_of_def)

lemma issues_of_audio: "issues_of (u\<lparr>audio_status := a\<rparr>) = issues_of u"
  by (simp add: issues_of_def)

lemma execute_audio:
  "execute (w\<lparr>db := (db w)\<lparr>daily_uploads := rows\<rparr>\<rparr>)
     = (fst (execute w), (snd (execute w))\<lparr>db := (db w)\<lparr>daily_uploads := rows\<rparr>\<rparr>)"
  by (simp add: execute_def split: list.splits)

lemma incomplete_items_answer:
  assumes "fst (execute w)"
  shows "fst (get_incomplete_items_for_date w d) =
           map (\<lambda>u. \<lparr>item_channel_name = channel_name u, item_video_number = video_number u,
                      item_missing = issues_of u, item_upload = u\<rparr>)
             (filter (\<lambda>u. issues_of u \<noteq> [])
                (filter (\<lambda>u. upload_date u = d) (daily_uploads (db w))))"
proof -
  obtain w1 where ex: "execute w = (True, w1)"
    using assms by (cases "execute w") auto
  have "db w1 = db w"
    using ex by (auto simp: execute_def split: list.splits)
  then show ?thesis
    by (simp add: get_incomplete_items_for_date_def select_uploads_def ex del: filter_filter)
qed

text \<open>
  Claim C10. When the store answers, the incomplete items of a date are exactly the rows
  of that date whose script is pending, or whose thumbnail is pending, or whose video is
  not completed, in the order of the table; the filter that
  \<^verbatim>\<open>DailyUploadManager.get_incomplete_items\<close> sends to the store selects the same rows; an
  item's missing list names script, thumbnail and video by these three tests; and
  replacing the audio statuses of the table by any others changes neither the items
  reported nor their missing lists.
\<close>

theorem incomplete_items_iff:
  assumes "fst (execute w)"
  shows "map item_upload (fst (get_incomplete_items_for_date w d))
           = filter (\<lambda>u. upload_date u = d \<and>
                       (script_status u = ''pending'' \<or> thumbnail_status u = ''pending''
                        \<or> video_status u \<noteq> ''completed''))
               (daily_uploads (db w))
         \<and> fst (get_incomplete_items w d) = map item_upload (fst (get_incomplete_items_for_date w d))
         \<and> (\<forall>it \<in> set (fst (get_incomplete_items_for_date w d)).
              item_missing it =
                (if script_status (item_upload it) = ''pending'' then [''script''] else [])
                @ (if thumbnail_status (item_upload it) = ''pending'' then [''thumbnail''] else [])
                @ (if video_status (item_upload it) \<noteq> ''completed'' then [''video''] else []))
         \<and> map (\<lambda>it. (item_channel_name it, item_video_number it, item_missing it))
              (fst (get_incomplete_items_for_date
                      (w\<lparr>db := (db w)\<lparr>daily_uploads :=
                            map (\<lambda>u. u\<lparr>audio_status := g u\<rparr>) (daily_uploads (db w))\<rparr>\<rparr>) d))
           = map (\<lambda>it. (item_channel_name it, item_video_number it, item_missing it))
               (fst (get_incomplete_items_for_date w d))"
proof -
  let ?P = "\<lambda>u. upload_date u = d \<and>
              (script_status u = ''pending'' \<or> thumbnail_status u = ''pending''
               \<or> video_status u \<noteq> ''completed'')"
  let ?w' = "w\<lparr>db := (db w)\<lparr>daily_uploads :=
                map (\<lambda>u. u\<lparr>audio_status := g u\<rparr>) (daily_uploads (db w))\<rparr>\<rparr>"
  note ans = incomplete_items_answer [OF assms, of d]
  have incl: "map item_upload (fst (get_incomplete_items_for_date w d))
                = filter ?P (daily_uploads (db w))"
    unfolding ans by (simp add: comp_def issues_of_nonempty conj_commute)
  obtain w1 where ex: "execute w = (True, w1)"
    using assms by (cases "execute w") auto
  have dbw1: "db w1 = db w"
    using ex by (auto simp: execute_def split: list.splits)
  have store: "fst (get_incomplete_items w d) = filter ?P (daily_uploads (db w))"
    by (simp add: get_incomplete_items_def ex dbw1)
  have miss: "\<forall>it \<in> set (fst (get_incomplete_items_for_date w d)).
              item_missing it =
                (if script_status (item_upload it) = ''pending'' then [''script''] else [])
                @ (if thumbnail_status (item_upload it) = ''pending'' then [''thumbnail''] else [])
                @ (if video_status (item_upload it) \<noteq> ''completed'' then [''video''] else [])"
    unfolding ans by (auto simp: issues_of_def)
  have ex': "fst (execute ?w')"
    using assms by (simp add: execute_audio)
  have audio: "map (\<lambda>it. (item_channel_name it, item_video_number it, item_missing it))
              (fst (get_incomplete_items_for_date ?w' d))
           = map (\<lambda>it. (item_channel_name it, item_video_number it, item_missing it))
               (fst (get_incomplete_items_for_date w d))"
    unfolding incomplete_items_answer [OF ex', of d] ans
    by (simp add: comp_def filter_map issues_of_audio)
  show ?thesis using incl store miss audio by simp
qed

theorem incomplete_items_iff_witness:
  "map item_upload
     (fst (get_incomplete_items_for_date (world_with [slot_GYH_2, slot_BI_1] [] []) ''2025-01-21''))
     = [slot_GYH_2]
   \<and> fst (get_incomplete_items (world_with [slot_GYH_2, slot_BI_1] [] []) ''2025-01-21'')
       = [slot_GYH_2]
   \<and> audio_status slot_BI_1 = ''pending''"
proof -
  have h: "fst (execute (world_with [slot_GYH_2, slot_BI_1] [] []))"
    by (simp add: execute_def example_defs)
  show ?thesis
    using incomplete_items_iff [OF h, of "''2025-01-21''" "\<lambda>u. ''completed''"]
    by (simp add: example_defs slot_BI_1_def)
qed

section \<open>The status of a date\<close>

lemma status_tier_step:
  "(p = 100 \<longrightarrow> status_tier p = ''READY'')
   \<and> (80 \<le> p \<and> p < 100 \<longrightarrow> status_tier p = ''ALMOST READY'')
   \<and> (50 \<le> p \<and> p < 80 \<longrightarrow> status_tier p = ''IN PROGRESS'')
   \<and> (0 < p \<and> p < 50 \<longrightarrow> status_tier p = ''STARTED'')
   \<and> (p = 0 \<longrightarrow> status_tier p = ''NOT STARTED'')
   \<and> status_tier p \<in> {''READY'', ''ALMOST READY'', ''IN PROGRESS'', ''STARTED'', ''NOT STARTED''}"
  by (simp add: status_tier_def)

lemma pct_bounds:
  fixes c t :: nat
  assumes "c \<le> t" and "0 < t"
  shows "0 \<le> (of_nat c / of_nat t * 100 :: rat) \<and> (of_nat c / of_nat t * 100 :: rat) \<le> 100"
proof -
  define q :: rat where "q = of_nat c / of_nat t"
  have "(of_nat c :: rat) \<le> of_nat t" using assms(1) by simp
  moreover have "(0::rat) < of_nat t" using assms(2) by simp
  ultimately have "q \<le> 1" and "0 \<le> q" by (simp_all add: q_def divide_le_eq)
  then have "0 \<le> q * 100 \<and> q * 100 \<le> 100" by simp
  then show ?thesis unfolding q_def .
qed

lemma day_status_of_fields:
  "completion_pct (day_status_of d sched ups)
     = (if length ups > 0
        then of_nat (length (filter (\<lambda>u. video_status u = ''completed'') ups)) / of_nat (length ups) * 100
        else 0)"
  "status_text (day_status_of d sched ups) = status_tier (completion_pct (day_status_of d sched ups))"
  "total_videos (day_status_of d sched ups) = length ups"
  "videos_completed (day_status_of d sched ups) = length (filter (\<lambda>u. video_status u = ''completed'') ups)"
  "ds_uploads (day_status_of d sched ups) = ups"
  "ds_date (day_status_of d sched ups) = d"
  "ds_schedule (day_status_of d sched ups) = sched"
  "all_complete (day_status_of d sched ups) = (case sched of None \<Rightarrow> False | Some s \<Rightarrow> sched_all_complete s)"
  "ds_channels (day_status_of d sched ups) = foldl add_upload [] ups"
  by (simp_all add: day_status_of_def Let_def)

lemma select_uploads_cases:
  "select_uploads w d = (r, w1) \<Longrightarrow>
     db w1 = db w \<and> (case r of Inl e \<Rightarrow> True
        | Inr ups \<Rightarrow> ups = filter (\<lambda>u. upload_date u = d) (daily_uploads (db w)))"
  by (auto simp: select_uploads_def execute_def split: list.splits if_splits)

lemma get_day_status_Some:
  assumes "get_day_status skeleton w d = (Some st, w')"
  shows "\<exists>sched. st = day_status_of d sched (filter (\<lambda>u. upload_date u = d) (daily_uploads (db w')))"
proof -
  from assms obtain w2 rows2 ups where
    sel: "select_uploads w2 d = (Inr ups, w')"
    and st: "st = day_status_of d (case rows2 of [] \<Rightarrow> None | s # _ \<Rightarrow> Some s) ups"
    by (auto simp: get_day_status_def split: prod.splits sum.splits)
  from select_uploads_cases [OF sel]
  have "ups = filter (\<lambda>u. upload_date u = d) (daily_uploads (db w'))" by simp
  with st show ?thesis by blast
qed

lemma get_day_status_answers:
  assumes "faults w = []"
  shows "fst (get_day_status skeleton w d) \<noteq> None"
proof -
  have s1: "\<And>v. faults v = [] \<Longrightarrow> \<exists>rows. select_schedules v d = (Inr rows, v)"
    by (simp add: select_schedules_def execute_no_faults)
  have s2: "\<And>v. faults v = [] \<Longrightarrow> \<exists>ups. select_uploads v d = (Inr ups, v)"
    by (simp add: select_uploads_def execute_no_faults)
  have s3: "\<And>v. faults v = [] \<Longrightarrow> faults (snd (initialize_date skeleton v d)) = []"
    by (simp add: initialize_date_def execute_no_faults)
  obtain rows1 where r1: "select_schedules w d = (Inr rows1, w)" using s1 [OF assms] by blast
  show ?thesis
  proof (cases "rows1 = []")
    case False
    obtain ups where "select_uploads w d = (Inr ups, w)" using s2 [OF assms] by blast
    with r1 False show ?thesis by (simp add: get_day_status_def)
  next
    case True
    let ?v = "snd (initialize_date skeleton w d)"
    obtain rows2 where r2: "select_schedules ?v d = (Inr rows2, ?v)"
      using s1 [OF s3 [OF assms]] by blast
    obtain ups where "select_uploads ?v d = (Inr ups, ?v)" using s2 [OF s3 [OF assms]] by blast
    with r1 r2 True show ?thesis by (simp add: get_day_status_def)
  qed
qed

text \<open>
  Claim C2. The tier is a step function of the completion percentage \<open>p\<close>: 100 gives
  READY, 80 up to 100 ALMOST READY, 50 up to 80 IN PROGRESS, above 0 up to 50 STARTED,
  0 NOT STARTED, and every \<open>p\<close> gets one of the five names. When the store answers,
  \<^verbatim>\<open>get_day_status\<close> returns a status and no error; the status it returns has its tier
  computed from \<open>p\<close>, where \<open>p\<close> is the number of rows of the date with a
  completed video, divided by the number of rows of the date, times 100 (so \<open>p\<close> lies
  between 0 and 100), and is 0 with the tier NOT STARTED when the date has no rows.
\<close>

theorem get_day_status_tier:
  "(p = 100 \<longrightarrow> status_tier p = ''READY'')
   \<and> (80 \<le> p \<and> p < 100 \<longrightarrow> status_tier p = ''ALMOST READY'')
   \<and> (50 \<le> p \<and> p < 80 \<longrightarrow> status_tier p = ''IN PROGRESS'')
   \<and> (0 < p \<and> p < 50 \<longrightarrow> status_tier p = ''STARTED'')
   \<and> (p = 0 \<longrightarrow> status_tier p = ''NOT STARTED'')
   \<and> status_tier p \<in> {''READY'', ''ALMOST READY'', ''IN PROGRESS'', ''STARTED'', ''NOT STARTED''}
   \<and> (faults w = [] \<longrightarrow> fst (get_day_status skeleton w d) \<noteq> None)
   \<and> (\<forall>st. fst (get_day_status skeleton w d) = Some st \<longrightarrow>
         status_text st = status_tier (completion_pct st)
         \<and> completion_pct st =
             (if total_videos st > 0
              then of_nat (videos_completed st) / of_nat (total_videos st) * 100 else 0)
         \<and> 0 \<le> completion_pct st \<and> completion_pct st \<le> 100
         \<and> total_videos st = length (ds_uploads st)
         \<and> videos_completed st = length (filter (\<lambda>u. video_status u = ''completed'') (ds_uploads st))
         \<and> ds_uploads st = filter (\<lambda>u. upload_date u = d)
                              (daily_uploads (db (snd (get_day_status skeleton w d))))
         \<and> (ds_uploads st = [] \<longrightarrow> completion_pct st = 0 \<and> status_text st = ''NOT STARTED''))"
proof -
  have B: "\<forall>st. fst (get_day_status skeleton w d) = Some st \<longrightarrow>
         status_text st = status_tier (completion_pct st)
         \<and> completion_pct st =
             (if total_videos st > 0
              then of_nat (videos_completed st) / of_nat (total_videos st) * 100 else 0)
         \<and> 0 \<le> completion_pct st \<and> completion_pct st \<le> 100
         \<and> total_videos st = length (ds_uploads st)
         \<and> videos_completed st = length (filter (\<lambda>u. video_status u = ''completed'') (ds_uploads st))
         \<and> ds_uploads st = filter (\<lambda>u. upload_date u = d)
                              (daily_uploads (db (snd (get_day_status skeleton w d))))
         \<and> (ds_uploads st = [] \<longrightarrow> completion_pct st = 0 \<and> status_text st = ''NOT STARTED'')"
  proof (intro allI impI)
    fix st assume a: "fst (get_day_status skeleton w d) = Some st"
    let ?w' = "snd (get_day_status skeleton w d)"
    let ?ups = "filter (\<lambda>u. upload_date u = d) (daily_uploads (db ?w'))"
    have "get_day_status skeleton w d = (Some st, ?w')" using a by (simp add: prod_eq_iff)
    from get_day_status_Some [OF this] obtain sched where st: "st = day_status_of d sched ?ups"
      by blast
    have bounds: "0 \<le> completion_pct st \<and> completion_pct st \<le> 100"
    proof (cases "length ?ups > 0")
      case True
      have "length (filter (\<lambda>u. video_status u = ''completed'') ?ups) \<le> length ?ups"
        by (rule length_filter_le)
      from pct_bounds [OF this True] show ?thesis
        unfolding st day_status_of_fields using True by simp
    next
      case False
      then show ?thesis unfolding st day_status_of_fields by simp
    qed
    have empty: "ds_uploads st = [] \<longrightarrow> completion_pct st = 0 \<and> status_text st = ''NOT STARTED''"
      unfolding st day_status_of_fields by (simp add: status_tier_def)
    show "status_text st = status_tier (completion_pct st)
         \<and> completion_pct st =
             (if total_videos st > 0
              then of_nat (videos_completed st) / of_nat (total_videos st) * 100 else 0)
         \<and> 0 \<le> completion_pct st \<and> completion_pct st \<le> 100
         \<and> total_videos st = length (ds_uploads st)
         \<and> videos_completed st = length (filter (\<lambda>u. video_status u = ''completed'') (ds_uploads st))
         \<and> ds_uploads st = ?ups
         \<and> (ds_uploads st = [] \<longrightarrow> completion_pct st = 0 \<and> status_text st = ''NOT STARTED'')"
      using bounds empty unfolding st day_status_of_fields by simp
  qed
  show ?thesis
    using status_tier_step [of p] get_day_status_answers [of w skeleton d] B by blast
qed


lemma get_day_status_example:
  "get_day_status (\<lambda>d t. t) (world_with ups [] []) ''2025-01-21''
     = (Some (day_status_of ''2025-01-21'' None
                (filter (\<lambda>u. upload_date u = ''2025-01-21'') ups)),
        world_with ups [] [])"
  by (simp add: get_day_status_def select_schedules_def initialize_date_def select_uploads_def
        execute_def world_with_def world0_def)

theorem get_day_status_tier_witness:
  "status_tier 50 = ''IN PROGRESS''
   \<and> map_option status_text
       (fst (get_day_status (\<lambda>d t. t) (world_with [slot_GYH_2, slot_BI_1] [] []) ''2025-01-21''))
       = Some ''IN PROGRESS''
   \<and> map_option status_text
       (fst (get_day_status (\<lambda>d t. t) (world_with [] [] []) ''2025-01-21''))
       = Some ''NOT STARTED''"
proof -
  have a: "status_tier 50 = ''IN PROGRESS''"
    using get_day_status_tier [of 50 world0 "\<lambda>d t. t" "''2025-01-21''"] by simp
  have b: "completion_pct (day_status_of ''2025-01-21'' None [slot_GYH_2, slot_BI_1]) = 50"
    by (simp add: day_status_of_fields slot_GYH_2_def slot_BI_1_def pending_row_def)
  show ?thesis
    using a b
    by (simp add: get_day_status_example day_status_of_fields slot_GYH_2_def slot_BI_1_def
          pending_row_def status_tier_def)
qed

section \<open>The per-channel breakdown\<close>

lemma tally_nil: "tally cs [] = cs"
  by (simp add: tally_def)

lemma tally_cons: "tally (tally cs [u]) rows = tally cs (u # rows)"
  by (simp add: tally_def)

lemma map_of_add_upload:
  "map_of (add_upload acc u) c =
     (if channel_name u = c
      then Some (tally (case map_of acc c of None \<Rightarrow> empty_channel_status | Some cs \<Rightarrow> cs) [u])
      else map_of acc c)"
  by (simp add: add_upload_def Let_def update_conv' tally_def)

lemma map_of_foldl_add_upload:
  "map_of (foldl add_upload acc ups) c =
     (case map_of acc c of
        None \<Rightarrow> (if filter (\<lambda>u. channel_name u = c) ups = [] then None
                 else Some (tally empty_channel_status (filter (\<lambda>u. channel_name u = c) ups)))
      | Some cs \<Rightarrow> Some (tally cs (filter (\<lambda>u. channel_name u = c) ups)))"
proof (induction ups arbitrary: acc)
  case Nil
  then show ?case by (simp add: tally_nil split: option.splits)
next
  case (Cons u us)
  show ?case
    by (simp add: Cons.IH map_of_add_upload tally_cons tally_nil split: option.splits)
qed

text \<open>
  Claim C6, as stated: every slot field that is still pending contributes a labelled
  missing entry. The video and audio fields do not: the slot (GYH, 2025-01-21, 2), with
  script and thumbnail received and video and audio pending, leaves the missing list of
  GYH empty.
\<close>

theorem pending_video_not_listed:
  "video_status slot_GYH_2 = ''pending'' \<and> audio_status slot_GYH_2 = ''pending''
   \<and> map_option ds_channels
       (fst (get_day_status (\<lambda>d t. t) (world_with [slot_GYH_2] [] []) ''2025-01-21''))
       = Some [(''GYH'', \<lparr>cs_total = 1, cs_completed = 0, cs_scripts = 1, cs_thumbnails = 1,
                          cs_missing = []\<rparr>)]"
  by (simp add: get_day_status_example day_status_of_fields add_upload_def slot_missing_def
        empty_channel_status_def slot_GYH_2_def pending_row_def Let_def)

text \<open>
  Claim C6, amended: in the breakdown of the status \<^verbatim>\<open>get_day_status\<close> returns, a
  channel has an entry exactly when the date has a row of it; the entry's total counts
  every row of the channel, whatever its video status (and \<open>total_videos\<close> counts every
  row of the date); its missing list holds, row by row in the order of the rows, the entry
  "V<n> script" when the script status is pending and then "V<n> thumbnail" when the
  thumbnail status is pending, and nothing else: the video and audio statuses add no
  entry.
\<close>

theorem day_status_breakdown:
  assumes "fst (get_day_status skeleton w d) = Some st"
  shows "total_videos st = length (ds_uploads st)
       \<and> map_of (ds_channels st) c =
           (if filter (\<lambda>u. channel_name u = c) (ds_uploads st) = [] then None
            else Some
              \<lparr>cs_total = length (filter (\<lambda>u. channel_name u = c) (ds_uploads st)),
               cs_completed = length (filter (\<lambda>u. video_status u = ''completed'')
                                  (filter (\<lambda>u. channel_name u = c) (ds_uploads st))),
               cs_scripts = length (filter (\<lambda>u. script_status u \<in> {''received'', ''processed''})
                                  (filter (\<lambda>u. channel_name u = c) (ds_uploads st))),
               cs_thumbnails = length (filter (\<lambda>u. thumbnail_status u = ''received'')
                                  (filter (\<lambda>u. channel_name u = c) (ds_uploads st))),
               cs_missing = concat (map
                  (\<lambda>u. (if script_status u = ''pending''
                         then [''V'' @ str_int (video_number u) @ '' script''] else [])
                        @ (if thumbnail_status u = ''pending''
                           then [''V'' @ str_int (video_number u) @ '' thumbnail''] else []))
                  (filter (\<lambda>u. channel_name u = c) (ds_uploads st)))\<rparr>)"
proof -
  have "get_day_status skeleton w d = (Some st, snd (get_day_status skeleton w d))"
    using assms by (simp add: prod_eq_iff)
  from get_day_status_Some [OF this] obtain sched ups where st: "st = day_status_of d sched ups"
    by blast
  have sm: "slot_missing =
      (\<lambda>u. (if script_status u = ''pending''
             then [''V'' @ str_int (video_number u) @ '' script''] else [])
            @ (if thumbnail_status u = ''pending''
               then [''V'' @ str_int (video_number u) @ '' thumbnail''] else []))"
    by (rule ext) (simp add: slot_missing_def)
  show ?thesis
    unfolding st day_status_of_fields map_of_foldl_add_upload
    by (simp add: tally_def empty_channel_status_def sm del: filter_filter)
qed

theorem day_status_breakdown_witness:
  "map_option (\<lambda>st. (total_videos st, map_of (ds_channels st) ''ChannelX''))
     (fst (get_day_status (\<lambda>d t. t) (world_with [slot_GYH_2, slot_X_2] [] []) ''2025-01-21''))
     = Some (2, Some \<lparr>cs_total = 1, cs_completed = 0, cs_scripts = 0, cs_thumbnails = 1,
                       cs_missing = [''V2 script'']\<rparr>)"
proof -
  let ?st = "day_status_of ''2025-01-21'' None [slot_GYH_2, slot_X_2]"
  have e: "fst (get_day_status (\<lambda>d t. t) (world_with [slot_GYH_2, slot_X_2] [] []) ''2025-01-21'')
             = Some ?st"
    by (simp add: get_day_status_example slot_GYH_2_def slot_X_2_def pending_row_def)
  have m: "map_of (ds_channels ?st) ''ChannelX''
             = Some \<lparr>cs_total = 1, cs_completed = 0, cs_scripts = 0, cs_thumbnails = 1,
                     cs_missing = [''V2 script'']\<rparr>"
    using day_status_breakdown [OF e, of "''ChannelX''"]
    by (simp add: day_status_of_fields slot_GYH_2_def slot_X_2_def pending_row_def
          str_int_def str_nat.simps)
  have t: "total_videos ?st = 2"
    by (simp add: day_status_of_fields)
  show ?thesis
    unfolding e using m t by simp
qed

section \<open>The reminder checks\<close>

lemmas reminder_defs =
  should_send_today_reminder_def should_send_tomorrow_reminder_def get_day_status_def
  get_incomplete_items_for_date_def select_schedules_def select_uploads_def initialize_date_def
  log_reminder_def job_today_ready_def job_tomorrow_incomplete_def execute_def
  datetime_sub_def total_seconds_def day_status_of_def issues_of_def

lemma total_seconds_less:
  "total_seconds m < 10800 \<longleftrightarrow> m < 10800000000"
  "total_seconds m < 1800 \<longleftrightarrow> m < 1800000000"
  by (simp_all add: total_seconds_def divide_less_eq)

lemma select_schedules_no_faults:
  "faults w = [] \<Longrightarrow>
     select_schedules w d = (Inr (filter (\<lambda>s. sched_upload_date s = d) (upload_schedules (db w))), w)"
  by (simp add: select_schedules_def execute_def)

lemma select_uploads_no_faults:
  "faults w = [] \<Longrightarrow>
     select_uploads w d = (Inr (filter (\<lambda>u. upload_date u = d) (daily_uploads (db w))), w)"
  by (simp add: select_uploads_def execute_def)

text \<open>
  What the "today ready" check answers when the store answers and the date has a schedule
  row: it says send exactly when the row's completion flag is set and the marker is
  absent, or of a type other than \<^verbatim>\<open>'ready'\<close>, or a naive timestamp at least three
  hours old.
\<close>

lemma should_send_today_reminder_answer:
  assumes "faults w = []"
    and "filter (\<lambda>s. sched_upload_date s = today) (upload_schedules (db w)) = s # rest"
  shows "fst (fst (should_send_today_reminder skeleton w today)) \<longleftrightarrow>
           sched_all_complete s
           \<and> (case last_reminder_sent_at s of
                None \<Rightarrow> True
              | Some m \<Rightarrow> reminder_type s \<noteq> Some ''ready''
                  \<or> (case m of Naive t \<Rightarrow> 3 * 3600 * 1000000 \<le> utcnow w - t | Aware t \<Rightarrow> False))"
proof -
  have g: "get_day_status skeleton w today
             = (Some (day_status_of today (Some s)
                        (filter (\<lambda>u. upload_date u = today) (daily_uploads (db w)))), w)"
    using assms
    by (simp add: get_day_status_def select_schedules_no_faults select_uploads_no_faults)
  show ?thesis
    using assms
    by (simp add: should_send_today_reminder_def g select_schedules_no_faults day_status_of_def
          Let_def datetime_sub_def total_seconds_less not_less
          split: option.splits datetime.splits)
qed

lemma job_today_ready_example:
  "job_today_ready (\<lambda>d t. t) ready_world ''2025-01-21''
     = (True,
        (world_with ready_rows
           [sched_of True (Some (Naive ten_o_clock)) (Some ''today_ready'')] [])
          \<lparr>db := (db (world_with ready_rows
                         [sched_of True (Some (Naive ten_o_clock)) (Some ''today_ready'')] []))
                   \<lparr>reminder_logs :=
                      [\<lparr>log_reminder_type = ''today_ready'', log_upload_date = ''2025-01-21'',
                        incomplete_count = 0, channels_mentioned = []\<rparr>]\<rparr>,
            utcnow := ten_o_clock\<rparr>)"
  by (simp add: reminder_defs ready_world_def world_with_def world0_def sched_of_def
        ready_rows_def done_row_def pending_row_def Let_def)

text \<open>
  Claim C1. The "today ready" check must say send only when today is complete and the
  last ready reminder is absent or older than three hours, and must say no for three
  hours after \<^verbatim>\<open>log_reminder\<close> has recorded a today-ready send. The first half is the
  lemma above. The second fails: \<^verbatim>\<open>job_today_ready\<close> logs its send under the type
  \<^verbatim>\<open>'today_ready'\<close>, and the check throttles on the type \<^verbatim>\<open>'ready'\<close> only. On the
  day whose slots are all done, the job run at 10:00:00 sends and writes the marker
  (10:00:00, \<^verbatim>\<open>'today_ready'\<close>), and the check one minute later says send again.
\<close>

theorem today_ready_not_throttled:
  "fst (job_today_ready (\<lambda>d t. t) ready_world ''2025-01-21'')
   \<and> map (\<lambda>s. (last_reminder_sent_at s, reminder_type s))
        (upload_schedules (db (snd (job_today_ready (\<lambda>d t. t) ready_world ''2025-01-21''))))
       = [(Some (Naive ten_o_clock), Some ''today_ready'')]
   \<and> fst (fst (should_send_today_reminder (\<lambda>d t. t)
                 ((snd (job_today_ready (\<lambda>d t. t) ready_world ''2025-01-21''))
                    \<lparr>utcnow := ten_o_clock + 60 * 1000000\<rparr>) ''2025-01-21''))"
  unfolding job_today_ready_example
  by (simp add: reminder_defs world_with_def world0_def sched_of_def ready_rows_def
        done_row_def pending_row_def Let_def)

theorem today_ready_not_throttled_witness:
  "fst (job_today_ready (\<lambda>d t. t) ready_world ''2025-01-21'')
   \<and> fst (fst (should_send_today_reminder (\<lambda>d t. t)
                 ((snd (job_today_ready (\<lambda>d t. t) ready_world ''2025-01-21''))
                    \<lparr>utcnow := ten_o_clock + 60 * 1000000\<rparr>) ''2025-01-21''))"
  using today_ready_not_throttled by blast

text \<open>
  What the "tomorrow incomplete" check answers for a marker without UTC offset: with
  outstanding items and the store answering, it says send exactly from 30 minutes after
  the marker on. And it says send only if there are outstanding items.
\<close>

lemma should_send_tomorrow_reminder_naive:
  assumes "faults w = []"
    and "fst (get_incomplete_items_for_date w tomorrow) \<noteq> []"
    and "filter (\<lambda>s. sched_upload_date s = tomorrow) (upload_schedules (db w)) = s # rest"
    and "last_reminder_sent_at s = Some (Naive t)"
  shows "fst (fst (should_send_tomorrow_reminder w tomorrow)) \<longleftrightarrow> t + 30 * 60 * 1000000 \<le> utcnow w"
proof -
  have w1: "snd (get_incomplete_items_for_date w tomorrow) = w"
    using assms(1)
    by (simp add: get_incomplete_items_for_date_def select_uploads_no_faults)
  obtain items where i: "get_incomplete_items_for_date w tomorrow = (items, w)" and "items \<noteq> []"
    using w1 assms(2) by (cases "get_incomplete_items_for_date w tomorrow") auto
  then show ?thesis
    using assms(1,3,4)
    by (simp add: should_send_tomorrow_reminder_def select_schedules_no_faults datetime_sub_def
          total_seconds_less not_less)
qed

lemma should_send_tomorrow_reminder_only_if:
  "fst (fst (should_send_tomorrow_reminder w tomorrow)) \<Longrightarrow>
     fst (get_incomplete_items_for_date w tomorrow) \<noteq> []"
  by (auto simp: should_send_tomorrow_reminder_def split: prod.splits if_splits)

text \<open>
  Claim C7. With outstanding items and a marker at \<open>T\<close>, the "tomorrow incomplete" check
  must say no before \<open>T\<close> + 30 minutes and send after it. For a marker the store returns
  with a UTC offset (or with \<^verbatim>\<open>Z\<close>, which the source rewrites to \<^verbatim>\<open>+00:00\<close>) the parsed
  datetime is aware, \<^verbatim>\<open>datetime.utcnow() - last_dt\<close> raises \<^verbatim>\<open>TypeError\<close>, and the
  \<^verbatim>\<open>except\<close> clause answers \<^verbatim>\<open>(False, [])\<close>: 31 minutes after the marker the check
  still says no, where the same marker without offset makes it say send.
\<close>

theorem tomorrow_aware_marker_never_fires:
  "fst (should_send_tomorrow_reminder (reminded_world (Aware ten_o_clock)) ''2025-01-21'')
     = (False, [])
   \<and> fst (fst (should_send_tomorrow_reminder (reminded_world (Naive ten_o_clock))
                 ''2025-01-21''))
   \<and> map item_upload
        (fst (get_incomplete_items_for_date (reminded_world (Aware ten_o_clock)) ''2025-01-21''))
       = [slot_X_2]
   \<and> utcnow (reminded_world (Aware ten_o_clock)) > ten_o_clock + 30 * 60 * 1000000"
  by (simp add: reminder_defs reminded_world_def world_with_def world0_def sched_of_def
        slot_X_2_def pending_row_def ten_o_clock_def Let_def)

theorem tomorrow_aware_marker_never_fires_witness:
  "fst (should_send_tomorrow_reminder (reminded_world (Aware ten_o_clock)) ''2025-01-21'')
     = (False, [])"
  using tomorrow_aware_marker_never_fires by blast

section \<open>The wizard: one commit or none\<close>

text \<open>What the calls on the commit path leave alone, and what they add to the journal.\<close>

lemma chat_frame:
  "chat w = (ok, w1) \<Longrightarrow>
     db w1 = db w \<and> journal w1 = journal w \<and> selections w1 = selections w
     \<and> bulk_selections w1 = bulk_selections w \<and> utcnow w1 = utcnow w \<and> faults w1 = faults w"
  by (auto simp: chat_def split: list.splits)

lemma chat_result: "chat w = (chat_ok 1 w, w\<lparr>chat_faults := tl (chat_faults w)\<rparr>)"
  by (cases "chat_faults w") (simp_all add: chat_def chat_ok_def)

lemma chat_ok_2:
  "chat_ok 2 w \<longleftrightarrow> chat_ok 1 w \<and> chat_ok 1 (w\<lparr>chat_faults := tl (chat_faults w)\<rparr>)"
proof (cases "chat_faults w")
  case Nil
  then show ?thesis by (simp add: chat_ok_def)
next
  case (Cons f fs)
  then show ?thesis by (cases fs) (auto simp: chat_ok_def numeral_2_eq_2)
qed

lemma chat_ok_cong: "chat_faults w1 = chat_faults w2 \<Longrightarrow> chat_ok k w1 = chat_ok k w2"
  by (simp add: chat_ok_def)

lemma chat_ok_no_faults: "chat_faults w = [] \<Longrightarrow> chat_ok k w"
  by (simp add: chat_ok_def)

lemma get_channel_frame:
  "get_channel w nm = (r, w1) \<Longrightarrow>
     db w1 = db w \<and> journal w1 = journal w \<and> selections w1 = selections w
     \<and> bulk_selections w1 = bulk_selections w \<and> utcnow w1 = utcnow w
     \<and> chat_faults w1 = chat_faults w"
  by (auto simp: get_channel_def execute_def split: list.splits option.splits if_splits)

lemma get_channel_buttons_frame:
  "get_channel_buttons w = (k, w1) \<Longrightarrow>
     db w1 = db w \<and> journal w1 = journal w \<and> selections w1 = selections w
     \<and> bulk_selections w1 = bulk_selections w \<and> utcnow w1 = utcnow w
     \<and> chat_faults w1 = chat_faults w"
  by (auto simp: get_channel_buttons_def list_channels_def execute_def
           split: list.splits if_splits)

lemma create_upload_entry_frame:
  "create_upload_entry w c d n = (r, w1) \<Longrightarrow>
     journal w1 = journal w @ [CreateUploadEntry c d n (returned r)]
     \<and> selections w1 = selections w
     \<and> bulk_selections w1 = bulk_selections w \<and> utcnow w1 = utcnow w
     \<and> chat_faults w1 = chat_faults w
     \<and> channels (db w1) = channels (db w)
     \<and> (returned r \<longrightarrow> d \<noteq> None)"
  by (auto simp: create_upload_entry_def journaled_def returned_def Let_def execute_def
           split: list.splits option.splits if_splits)

lemma patch_slot_frame:
  "patch_slot w c d n f = (r, w1) \<Longrightarrow>
     journal w1 = journal w \<and> selections w1 = selections w
     \<and> bulk_selections w1 = bulk_selections w \<and> utcnow w1 = utcnow w
     \<and> chat_faults w1 = chat_faults w
     \<and> channels (db w1) = channels (db w)"
  by (auto simp: patch_slot_def Let_def execute_def split: list.splits if_splits)

lemma update_script_frame':
  "update_script w c d n t = (r, w1) \<Longrightarrow>
     journal w1 = journal w @ [UpdateScript c d n t (returned r)]
     \<and> selections w1 = selections w
     \<and> bulk_selections w1 = bulk_selections w \<and> utcnow w1 = utcnow w
     \<and> chat_faults w1 = chat_faults w
     \<and> channels (db w1) = channels (db w)"
  unfolding update_script_def
  by (drule journaled_frame, erule exE, erule conjE, drule patch_slot_frame) simp

lemma update_thumbnail_frame':
  "update_thumbnail w c d n g u = (r, w1) \<Longrightarrow>
     journal w1 = journal w @ [UpdateThumbnail c d n g u (returned r)]
     \<and> selections w1 = selections w
     \<and> bulk_selections w1 = bulk_selections w \<and> utcnow w1 = utcnow w
     \<and> chat_faults w1 = chat_faults w
     \<and> channels (db w1) = channels (db w)"
  unfolding update_thumbnail_def
  by (drule journaled_frame, erule exE, erule conjE, drule patch_slot_frame) simp

lemma process_selection_effect:
  assumes "process_selection w s = (ok, w1)"
  shows "selections w1 = selections w \<and> bulk_selections w1 = bulk_selections w
       \<and> chat_faults w1 = chat_faults w
       \<and> (\<exists>rest. journal w1 = journal w @
              ProcessSelection (selected_date s) (selected_channel s) (selected_video s) # rest
            \<and> commits rest = 0 \<and> length rest \<le> 2)
       \<and> (ok \<longrightarrow> selected_date s \<noteq> None)"
  using assms
  by (auto simp: process_selection_def Let_def commits_def
           split: prod.splits option.splits sum.splits if_splits pyval.splits
           dest!: get_channel_frame create_upload_entry_frame update_script_frame'
                  update_thumbnail_frame')

lemma startswith_append: "startswith s p \<Longrightarrow> \<exists>t. s = p @ t"
  unfolding startswith_def by (metis append_take_drop_id)

lemma video_is_terminal:
  assumes "startswith v ''video:''"
  shows "v \<noteq> ''cancel'' \<and> v \<noteq> ''back_to_date'' \<and> v \<noteq> ''back_to_channel''
         \<and> \<not> startswith v ''date:'' \<and> \<not> startswith v ''channel:''"
proof -
  from startswith_append [OF assms] obtain t where "v = ''video:'' @ t" by blast
  then show ?thesis by (simp add: startswith_def)
qed

text \<open>
  A callback whose \<^verbatim>\<open>query.answer()\<close> raises changes nothing but the chat platform's
  pending failures.
\<close>

lemma handle_callback_unanswered:
  "\<not> chat_ok 1 w \<Longrightarrow>
     handle_callback isodate w u data = (False, w\<lparr>chat_faults := tl (chat_faults w)\<rparr>)"
  by (simp add: handle_callback_def chat_result)

lemma handle_callback_cancel:
  assumes "selections w u = Some s"
  shows "journal (snd (handle_callback isodate w u ''cancel'')) = journal w
       \<and> db (snd (handle_callback isodate w u ''cancel'')) = db w
       \<and> (selections (snd (handle_callback isodate w u ''cancel'')) u = None \<longleftrightarrow> chat_ok 2 w)"
  using assms
  by (simp add: handle_callback_def chat_result chat_ok_2 del_selection_def)

lemma handle_callback_nonterminal:
  assumes "selections w u = Some s" and "data \<noteq> ''cancel''" and "\<not> startswith data ''video:''"
  shows "journal (snd (handle_callback isodate w u data)) = journal w
       \<and> db (snd (handle_callback isodate w u data)) = db w
       \<and> (\<exists>s'. selections (snd (handle_callback isodate w u data)) u = Some s'
              \<and> content_type s' = content_type s \<and> content_data s' = content_data s
              \<and> (selected_date s' = selected_date s
                  \<or> (\<exists>d. startswith data ''date:'' \<and> split1 data = Some d
                          \<and> selected_date s' = Some d)))"
  using assms
  by (auto simp: handle_callback_def put_selection_def chat_result
           split: prod.splits option.splits
           dest!: get_channel_buttons_frame)

lemma handle_callback_video:
  assumes "selections w u = Some s" and "startswith v ''video:''" and "split1 v = Some t"
    and "py_int t = Some n" and "date_ok isodate s"
  shows "commits (journal (snd (handle_callback isodate w u v)))
           = commits (journal w) + (if chat_ok 1 w then 1 else 0)
       \<and> (selections (snd (handle_callback isodate w u v)) u = None \<longleftrightarrow> chat_ok 2 w)
       \<and> length (journal (snd (handle_callback isodate w u v))) \<le> length (journal w) + 3"
proof (cases "chat_ok 1 w")
  case False
  then have "\<not> chat_ok 2 w" by (simp add: chat_ok_2)
  with False assms(1) show ?thesis
    by (simp add: handle_callback_unanswered)
next
  case True
  let ?wa = "w\<lparr>chat_faults := tl (chat_faults w)\<rparr>"
  let ?s' = "s\<lparr>selected_video := Some n\<rparr>"
  obtain ok w1 where ps: "process_selection (put_selection ?wa u ?s') ?s' = (ok, w1)"
    by (cases "process_selection (put_selection ?wa u ?s') ?s'") auto
  from process_selection_effect [OF ps] obtain rest where
    j: "journal w1 = journal w @ ProcessSelection (selected_date s) (selected_channel s) (Some n) # rest"
    and c: "commits rest = 0" and l: "length rest \<le> 2" and d: "ok \<longrightarrow> selected_date s \<noteq> None"
    and sel: "selections w1 u = Some ?s'" and cf: "chat_faults w1 = tl (chat_faults w)"
    by (auto simp: put_selection_def)
  have ok_iso: "ok \<Longrightarrow> (case selected_date s of None \<Rightarrow> False | Some d \<Rightarrow> isodate d)"
    using d assms(5) by (auto simp: date_ok_def split: option.splits)
  have "chat_ok 1 w1 = chat_ok 1 ?wa"
    by (rule chat_ok_cong) (simp add: cf)
  then have r: "chat_ok 1 w1 \<longleftrightarrow> chat_ok 2 w"
    using True by (simp add: chat_ok_2)
  have hc: "handle_callback isodate w u v
              = (if chat_ok 1 w1 then (True, del_selection (w1\<lparr>chat_faults := tl (chat_faults w1)\<rparr>) u)
                 else (False, w1\<lparr>chat_faults := tl (chat_faults w1)\<rparr>))"
    using assms(1,3,4) video_is_terminal [OF assms(2)] assms(2) ps ok_iso True
    by (auto simp: handle_callback_def Let_def chat_result)
  show ?thesis
    using j c l sel r True by (simp add: hc del_selection_def commits_def)
qed

lemma run_callbacks_append:
  "run_callbacks isodate w u (xs @ ys) = run_callbacks isodate (run_callbacks isodate w u xs) u ys"
  by (induction xs arbitrary: w) simp_all

lemma run_callbacks_nonterminal:
  assumes "selections w u = Some s"
    and "\<forall>data \<in> set prefix. data \<noteq> ''cancel'' \<and> \<not> startswith data ''video:''"
  shows "journal (run_callbacks isodate w u prefix) = journal w
       \<and> db (run_callbacks isodate w u prefix) = db w
       \<and> (\<exists>s'. selections (run_callbacks isodate w u prefix) u = Some s'
              \<and> content_type s' = content_type s \<and> content_data s' = content_data s
              \<and> (date_ok isodate s
                   \<and> (\<forall>data \<in> set prefix. \<forall>d. startswith data ''date:'' \<and> split1 data = Some d
                          \<longrightarrow> isodate d)
                  \<longrightarrow> date_ok isodate s'))"
  using assms
proof (induction prefix arbitrary: w s)
  case Nil
  then show ?case by simp
next
  case (Cons data rest)
  let ?w1 = "snd (handle_callback isodate w u data)"
  from Cons.prems have nt: "data \<noteq> ''cancel''" "\<not> startswith data ''video:''"
    and rest: "\<forall>x \<in> set rest. x \<noteq> ''cancel'' \<and> \<not> startswith x ''video:''"
    by simp_all
  from handle_callback_nonterminal [OF Cons.prems(1) nt, of isodate]
  obtain s1 where j: "journal ?w1 = journal w" and d: "db ?w1 = db w"
    and s1: "selections ?w1 u = Some s1"
    and c: "content_type s1 = content_type s" "content_data s1 = content_data s"
    and dt: "selected_date s1 = selected_date s
             \<or> (\<exists>d. startswith data ''date:'' \<and> split1 data = Some d \<and> selected_date s1 = Some d)"
    by blast
  have ok1: "date_ok isodate s
             \<and> (\<forall>x \<in> set (data # rest). \<forall>d. startswith x ''date:'' \<and> split1 x = Some d \<longrightarrow> isodate d)
             \<Longrightarrow> date_ok isodate s1
                 \<and> (\<forall>x \<in> set rest. \<forall>d. startswith x ''date:'' \<and> split1 x = Some d \<longrightarrow> isodate d)"
    using dt by (auto simp: date_ok_def)
  from Cons.IH [OF s1 rest] obtain s' where
    ij: "journal (run_callbacks isodate ?w1 u rest) = journal ?w1"
    and idb: "db (run_callbacks isodate ?w1 u rest) = db ?w1"
    and isel: "selections (run_callbacks isodate ?w1 u rest) u = Some s'"
    and ic: "content_type s' = content_type s1" "content_data s' = content_data s1"
    and iok: "date_ok isodate s1
              \<and> (\<forall>x \<in> set rest. \<forall>d. startswith x ''date:'' \<and> split1 x = Some d \<longrightarrow> isodate d)
              \<longrightarrow> date_ok isodate s'"
    by blast
  have final: "date_ok isodate s
             \<and> (\<forall>x \<in> set (data # rest). \<forall>d. startswith x ''date:'' \<and> split1 x = Some d \<longrightarrow> isodate d)
             \<longrightarrow> date_ok isodate s'"
  proof
    assume a: "date_ok isodate s
             \<and> (\<forall>x \<in> set (data # rest). \<forall>d. startswith x ''date:'' \<and> split1 x = Some d \<longrightarrow> isodate d)"
    from ok1 [OF a] iok show "date_ok isodate s'" by (rule_tac mp)
  qed
  have run: "run_callbacks isodate w u (data # rest) = run_callbacks isodate ?w1 u rest"
    by simp
  show ?case
    unfolding run
  proof (intro conjI)
    show "journal (run_callbacks isodate ?w1 u rest) = journal w" using ij j by simp
    show "db (run_callbacks isodate ?w1 u rest) = db w" using idb d by simp
    show "\<exists>s'. selections (run_callbacks isodate ?w1 u rest) u = Some s'
              \<and> content_type s' = content_type s \<and> content_data s' = content_data s
              \<and> (date_ok isodate s
                   \<and> (\<forall>data \<in> set (data # rest). \<forall>d. startswith data ''date:'' \<and> split1 data = Some d
                          \<longrightarrow> isodate d)
                  \<longrightarrow> date_ok isodate s')"
      using isel ic c final by (intro exI [of _ s']) simp
  qed
qed

text \<open>While the chat platform accepts every call, no failure of it is pending.\<close>

lemma chat_no_faults: "chat_faults w = [] \<Longrightarrow> chat w = (True, w)"
  by (simp add: chat_def)

lemma get_channel_buttons_chat_no_faults:
  "chat_faults w = [] \<Longrightarrow> chat_faults (snd (get_channel_buttons w)) = []"
  using get_channel_buttons_frame [of w "fst (get_channel_buttons w)" "snd (get_channel_buttons w)"]
  by simp

lemma process_selection_chat_no_faults:
  "chat_faults w = [] \<Longrightarrow> chat_faults (snd (process_selection w s)) = []"
  using process_selection_effect [of w s "fst (process_selection w s)" "snd (process_selection w s)"]
  by simp

lemma put_selection_chat_faults [simp]:
  "chat_faults (put_selection w u s) = chat_faults w"
  "chat_faults (del_selection w u) = chat_faults w"
  by (simp_all add: put_selection_def del_selection_def)

lemma handle_callback_chat_no_faults:
  assumes "chat_faults w = []"
  shows "chat_faults (snd (handle_callback isodate w u data)) = []"
  using assms
  by (simp add: handle_callback_def chat_no_faults get_channel_buttons_chat_no_faults
        process_selection_chat_no_faults Let_def case_prod_beta
      split: option.splits)

lemma run_callbacks_chat_no_faults:
  "chat_faults w = [] \<Longrightarrow> chat_faults (run_callbacks isodate w u xs) = []"
  by (induction xs arbitrary: w) (simp_all add: handle_callback_chat_no_faults)

lemma start_selection_state:
  "\<exists>s. selections (snd (start_selection w u ct cd mid)) u = Some s
        \<and> content_type s = ct \<and> content_data s = cd \<and> selected_date s = None"
  "journal (snd (start_selection w u ct cd mid)) = journal w"
  "db (snd (start_selection w u ct cd mid)) = db w"
  "chat_faults w = [] \<Longrightarrow> chat_faults (snd (start_selection w u ct cd mid)) = []"
  by (simp_all add: start_selection_def chat_result put_selection_def fresh_selection_def)

text \<open>
  Claim C3, as stated: a sequence that ends in a video pick deletes the selection state
  whether the commit succeeds or fails. The handler deletes the state after its reply;
  when the reply raises, the \<^verbatim>\<open>except\<close> returns \<^verbatim>\<open>False\<close> and the state stays. Here the
  store is down for the commit (the lookup of the channel raises) and the chat platform
  refuses the seventh call, the reply "Error saving": one commit was attempted and the
  state is still there, the picked video included.
\<close>

theorem wizard_keeps_state_when_reply_fails:
  "(let w = run_callbacks (\<lambda>d. d = ''2025-01-21'')
              (snd (start_selection
                 (world0\<lparr>faults := [False, True],
                         chat_faults := [False, False, False, False, False, False, True]\<rparr>)
                 7 ''script'' (PyStr ''hello'') 1)) 7
              [''date:2025-01-21'', ''channel:GYH'', ''video:3'']
    in selections w 7
         = Some \<lparr>content_type = ''script'', content_data = PyStr ''hello'', step = ''video'',
                 selected_date = Some ''2025-01-21'', selected_channel = Some ''GYH'',
                 selected_video = Some 3, message_id = Some 1\<rparr>
       \<and> journal w = [ProcessSelection (Some ''2025-01-21'') (Some ''GYH'') (Some 3)])"
  by (simp add: world0_def chan_GYH_def chan_BI_def start_selection_def fresh_selection_def
        handle_callback_def chat_def put_selection_def del_selection_def startswith_def split1_def
        py_int_def is_digit_def is_space_def get_channel_buttons_def list_channels_def
        execute_def process_selection_def get_channel_def Let_def)

text \<open>
  Claim C3, amended. Start from a freshly started selection and let the user send any
  sequence of callbacks that are neither cancel nor a video pick (date picks, channel
  picks, back transitions, in any order and number), followed by one terminal input,
  whatever the store holds and whichever calls of the store and of the chat platform
  fail. If the terminal input is cancel, no commit occurs (the journal and the store are
  as before the wizard started), and the selection state is deleted exactly when the
  chat platform accepts the two calls of that callback, \<^verbatim>\<open>query.answer\<close> and the reply.
  If it is a video pick whose number \<^verbatim>\<open>int\<close> reads, and the dates picked on the way
  were ISO dates, at most one commit is attempted (one run of \<^verbatim>\<open>_process_selection\<close>,
  with at most two store writes): exactly one when \<^verbatim>\<open>query.answer\<close> is accepted and none
  when it raises; and the selection state is deleted, whether the commit succeeded or
  failed, exactly when the answer and the reply are both accepted. When the chat
  platform accepts every call, both are.
\<close>

theorem wizard_commits_at_most_once:
  assumes "\<forall>data \<in> set prefix. data \<noteq> ''cancel'' \<and> \<not> startswith data ''video:''"
  shows "(let w1 = snd (start_selection w0 u ct cd mid);
              w2 = run_callbacks isodate w1 u prefix;
              wc = run_callbacks isodate w1 u (prefix @ [''cancel''])
          in journal wc = journal w0 \<and> db wc = db w0
             \<and> (selections wc u = None \<longleftrightarrow> chat_ok 2 w2)
             \<and> (chat_faults w0 = [] \<longrightarrow> chat_ok 2 w2))
       \<and> ((\<forall>data \<in> set prefix. \<forall>d. startswith data ''date:'' \<and> split1 data = Some d
                \<longrightarrow> isodate d)
           \<and> startswith v ''video:'' \<and> split1 v = Some t \<and> py_int t = Some n \<longrightarrow>
          (let w1 = snd (start_selection w0 u ct cd mid);
               w2 = run_callbacks isodate w1 u prefix;
               wv = run_callbacks isodate w1 u (prefix @ [v])
           in commits (journal wv) = commits (journal w0) + (if chat_ok 1 w2 then 1 else 0)
              \<and> length (journal wv) \<le> length (journal w0) + 3
              \<and> (selections wv u = None \<longleftrightarrow> chat_ok 2 w2)))"
proof -
  let ?w1 = "snd (start_selection w0 u ct cd mid)"
  let ?w2 = "run_callbacks isodate ?w1 u prefix"
  from start_selection_state(1) [of w0 u ct cd mid] obtain s where
    w1: "selections ?w1 u = Some s" and sd: "selected_date s = None"
    by blast
  have w1j: "journal ?w1 = journal w0" "db ?w1 = db w0"
    by (rule start_selection_state)+
  have fresh: "date_ok isodate s" by (simp add: date_ok_def sd)
  from run_callbacks_nonterminal [OF w1 assms, of isodate] fresh
  obtain s2 where j2: "journal ?w2 = journal w0" and d2: "db ?w2 = db w0"
    and s2: "selections ?w2 u = Some s2"
    and ok2: "(\<forall>data \<in> set prefix. \<forall>d. startswith data ''date:'' \<and> split1 data = Some d
                 \<longrightarrow> isodate d) \<Longrightarrow> date_ok isodate s2"
    using w1j by auto
  have quiet: "chat_faults w0 = [] \<longrightarrow> chat_ok 2 ?w2"
    by (simp add: chat_ok_no_faults run_callbacks_chat_no_faults start_selection_state(4))
  have cancel: "let w1 = ?w1; w2 = run_callbacks isodate w1 u prefix;
                    wc = run_callbacks isodate w1 u (prefix @ [''cancel''])
                in journal wc = journal w0 \<and> db wc = db w0
                   \<and> (selections wc u = None \<longleftrightarrow> chat_ok 2 w2)
                   \<and> (chat_faults w0 = [] \<longrightarrow> chat_ok 2 w2)"
    using handle_callback_cancel [OF s2, of isodate] j2 d2 quiet
    by (simp add: run_callbacks_append Let_def)
  have video: "(\<forall>data \<in> set prefix. \<forall>d. startswith data ''date:'' \<and> split1 data = Some d
                \<longrightarrow> isodate d)
           \<and> startswith v ''video:'' \<and> split1 v = Some t \<and> py_int t = Some n \<longrightarrow>
          (let w1 = ?w1; w2 = run_callbacks isodate w1 u prefix;
               wv = run_callbacks isodate w1 u (prefix @ [v])
           in commits (journal wv) = commits (journal w0) + (if chat_ok 1 w2 then 1 else 0)
              \<and> length (journal wv) \<le> length (journal w0) + 3
              \<and> (selections wv u = None \<longleftrightarrow> chat_ok 2 w2))"
  proof (intro impI, elim conjE)
    assume dates: "\<forall>data \<in> set prefix. \<forall>d. startswith data ''date:'' \<and> split1 data = Some d
                \<longrightarrow> isodate d"
      and v: "startswith v ''video:''" "split1 v = Some t" "py_int t = Some n"
    from handle_callback_video [OF s2 v ok2 [OF dates]] j2
    show "let w1 = ?w1; w2 = run_callbacks isodate w1 u prefix;
               wv = run_callbacks isodate w1 u (prefix @ [v])
           in commits (journal wv) = commits (journal w0) + (if chat_ok 1 w2 then 1 else 0)
              \<and> length (journal wv) \<le> length (journal w0) + 3
              \<and> (selections wv u = None \<longleftrightarrow> chat_ok 2 w2)"
      by (simp add: run_callbacks_append Let_def)
  qed
  show ?thesis by (rule conjI) (fact cancel, fact video)
qed

theorem wizard_commits_at_most_once_witness:
  "selections
     (run_callbacks (\<lambda>d. d = ''2025-01-21'') (snd (start_selection world0 7 ''script'' (PyStr ''hello'') 1)) 7
        ([''date:2025-01-21'', ''channel:BI'', ''back_to_date'', ''date:2025-01-21'', ''channel:GYH'']
         @ [''cancel''])) 7 = None
   \<and> commits (journal
        (run_callbacks (\<lambda>d. d = ''2025-01-21'') (snd (start_selection world0 7 ''script'' (PyStr ''hello'') 1)) 7
           ([''date:2025-01-21'', ''channel:BI'', ''back_to_date'', ''date:2025-01-21'', ''channel:GYH'']
            @ [''video:3'']))) = 1
   \<and> selections
        (run_callbacks (\<lambda>d. d = ''2025-01-21'')
           (snd (start_selection (world0\<lparr>faults := [True, True, True, True]\<rparr>) 7 ''script'' (PyStr ''hello'') 1)) 7
           ([''date:2025-01-21'', ''channel:BI'', ''back_to_date'', ''date:2025-01-21'', ''channel:GYH'']
            @ [''video:3''])) 7 = None"
proof -
  let ?prefix = "[''date:2025-01-21'', ''channel:BI'', ''back_to_date'', ''date:2025-01-21'', ''channel:GYH'']"
  let ?down = "world0\<lparr>faults := [True, True, True, True]\<rparr>"
  let ?iso = "\<lambda>d. d = ''2025-01-21''"
  have p: "\<forall>data \<in> set ?prefix. data \<noteq> ''cancel'' \<and> \<not> startswith data ''video:''"
    by (simp add: startswith_def)
  have d: "\<forall>data \<in> set ?prefix. \<forall>d. startswith data ''date:'' \<and> split1 data = Some d \<longrightarrow> d = ''2025-01-21''"
    by (simp add: startswith_def split1_def)
  have v: "startswith ''video:3'' ''video:''" "split1 ''video:3'' = Some ''3''" "py_int ''3'' = Some 3"
    by (simp_all add: startswith_def split1_def py_int_def is_digit_def is_space_def)
  have j: "journal world0 = []" "journal ?down = []" "chat_faults world0 = []" "chat_faults ?down = []"
    by (simp_all add: world0_def)
  have q: "\<And>w. chat_faults w = [] \<Longrightarrow>
             chat_ok 2 (run_callbacks ?iso (snd (start_selection w 7 ''script'' (PyStr ''hello'') 1)) 7 ?prefix)
             \<and> chat_ok 1 (run_callbacks ?iso (snd (start_selection w 7 ''script'' (PyStr ''hello'') 1)) 7 ?prefix)"
    by (intro conjI chat_ok_no_faults run_callbacks_chat_no_faults start_selection_state(4))
  from wizard_commits_at_most_once [OF p, of world0 7 "''script''" "PyStr ''hello''" 1 ?iso
      "''video:3''" "''3''" 3]
    wizard_commits_at_most_once [OF p, of ?down 7 "''script''" "PyStr ''hello''" 1 ?iso
      "''video:3''" "''3''" 3]
    d v j q [OF j(3)] q [OF j(4)]
  show ?thesis
    by (simp add: Let_def commits_def del: run_callbacks.simps append.simps)
qed

section \<open>The wizard: back transitions\<close>

lemma get_channel_buttons_no_faults:
  "faults w = [] \<Longrightarrow> faults (snd (get_channel_buttons w)) = []"
  by (simp add: get_channel_buttons_def list_channels_def execute_def)

lemma get_channel_buttons_last:
  "last (fst (get_channel_buttons w)) = [''back_to_date'', ''cancel'']"
  by (simp add: get_channel_buttons_def split: prod.splits)

lemma split1_prefixed:
  "CHR '':'' \<notin> set d \<Longrightarrow>
     split1 (CHR ''d'' # CHR ''a'' # CHR ''t'' # CHR ''e'' # CHR '':'' # d) = Some d"
  "CHR '':'' \<notin> set d \<Longrightarrow>
     split1 (CHR ''c'' # CHR ''h'' # CHR ''a'' # CHR ''n'' # CHR ''n'' # CHR ''e'' # CHR ''l''
               # CHR '':'' # d) = Some d"
  by (auto simp: split1_def takeWhile_eq_all_conv)

lemma selections_after_buttons:
  "selections (snd (get_channel_buttons w)) = selections w"
  "journal (snd (get_channel_buttons w)) = journal w"
  "db (snd (get_channel_buttons w)) = db w"
  "chat_faults (snd (get_channel_buttons w)) = chat_faults w"
  using get_channel_buttons_frame [of w "fst (get_channel_buttons w)" "snd (get_channel_buttons w)"]
  by simp_all

lemma selections_after_chat:
  "selections (snd (chat w)) = selections w"
  "journal (snd (chat w)) = journal w"
  "db (snd (chat w)) = db w"
  "faults (snd (chat w)) = faults w"
  by (simp_all add: chat_result)

lemma put_selection_simps:
  "selections (put_selection w u s) u = Some s"
  "journal (put_selection w u s) = journal w"
  "db (put_selection w u s) = db w"
  "faults (put_selection w u s) = faults w"
  by (simp_all add: put_selection_def)

text \<open>The four transitions, once \<^verbatim>\<open>query.answer()\<close> is accepted.\<close>

lemma handle_callback_back_to_date:
  "selections w u = Some s \<Longrightarrow> chat_ok 1 w \<Longrightarrow>
     selections (snd (handle_callback isodate w u ''back_to_date'')) u
       = Some (s\<lparr>step := ''date'', selected_channel := None\<rparr>)"
  by (simp add: handle_callback_def chat_result put_selection_def)

lemma handle_callback_back_to_channel:
  "selections w u = Some s \<Longrightarrow> chat_ok 1 w \<Longrightarrow>
     selections (snd (handle_callback isodate w u ''back_to_channel'')) u
       = Some (s\<lparr>step := ''channel'', selected_video := None\<rparr>)"
  by (simp add: handle_callback_def chat_result [of "w\<lparr>chat_faults := tl (chat_faults w)\<rparr>"]
        chat_result [of w] case_prod_beta selections_after_chat selections_after_buttons
        put_selection_def)

lemma handle_callback_date:
  "selections w u = Some s \<Longrightarrow> chat_ok 1 w \<Longrightarrow> CHR '':'' \<notin> set d \<Longrightarrow>
     selections (snd (handle_callback isodate w u (''date:'' @ d))) u
       = Some (s\<lparr>selected_date := Some d, step := ''channel''\<rparr>)"
  by (simp add: handle_callback_def chat_result [of w] startswith_def split1_prefixed
        case_prod_beta selections_after_chat selections_after_buttons put_selection_def)

lemma handle_callback_channel:
  "selections w u = Some s \<Longrightarrow> chat_ok 1 w \<Longrightarrow> CHR '':'' \<notin> set c \<Longrightarrow>
     selections (snd (handle_callback isodate w u (''channel:'' @ c))) u
       = Some (s\<lparr>selected_channel := Some c, step := ''video''\<rparr>)"
  by (simp add: handle_callback_def chat_result startswith_def split1_prefixed put_selection_def)

text \<open>What a callback leaves alone when it is no video pick, whatever the failures.\<close>

lemma handle_callback_step_frame:
  assumes "selections w u = Some s" and "\<not> startswith data ''video:''"
  shows "journal (snd (handle_callback isodate w u data)) = journal w
       \<and> db (snd (handle_callback isodate w u data)) = db w
       \<and> (faults w = [] \<longrightarrow> faults (snd (handle_callback isodate w u data)) = [])"
  using assms
  by (auto simp: handle_callback_def chat_result put_selection_def del_selection_def
        case_prod_beta selections_after_buttons get_channel_buttons_no_faults
      split: option.splits)

text \<open>
  The commit when the store answers: the entry of the slot is created, the content is
  written to that slot, and the rows of the other slots are as they were.
\<close>

lemma find_member: "x \<in> set xs \<Longrightarrow> P x \<Longrightarrow> find P xs \<noteq> None"
  by (auto simp: find_None_iff)

lemma patched_rows:
  assumes "\<And>u. same_slot c d n (f u) = same_slot c d n u"
  shows "filter (\<lambda>r. \<not> same_slot c d n r) (map (\<lambda>u. if same_slot c d n u then f u else u) rows)
           = filter (\<lambda>r. \<not> same_slot c d n r) rows"
    and "list_ex (same_slot c d n) (map (\<lambda>u. if same_slot c d n u then f u else u) rows)
           = list_ex (same_slot c d n) rows"
    and "\<forall>r \<in> set (map (\<lambda>u. if same_slot c d n u then f u else u) rows).
           same_slot c d n r \<longrightarrow> (\<exists>u. r = f u)"
  using assms by (induction rows) auto

lemma upsert_upload_pending:
  "upsert_upload rows (pending_row c nm d n)
     = (if list_ex (same_slot c d n) rows
        then map (\<lambda>u. if same_slot c d n u
                       then u\<lparr>script_status := ''pending'', thumbnail_status := ''pending'',
                              video_status := ''pending'', audio_status := ''pending''\<rparr>
                       else u) rows
        else rows @ [pending_row c nm d n])"
  by (simp add: upsert_upload_def pending_row_def)

lemma same_slot_pending: "same_slot c d n (pending_row c nm d n)"
  by (simp add: same_slot_def pending_row_def)

lemma same_slot_statuses:
  "same_slot c d n (u\<lparr>script_status := a, thumbnail_status := b, video_status := v,
                       audio_status := x\<rparr>) = same_slot c d n u"
  by (simp add: same_slot_def)

lemma upsert_upload_has_slot:
  "list_ex (same_slot c d n) (upsert_upload rows (pending_row c nm d n))"
  by (simp add: upsert_upload_pending patched_rows(2) [OF same_slot_statuses] same_slot_pending)

lemma upsert_upload_others:
  "filter (\<lambda>r. \<not> same_slot c d n r) (upsert_upload rows (pending_row c nm d n))
     = filter (\<lambda>r. \<not> same_slot c d n r) rows"
  by (simp add: upsert_upload_pending patched_rows(1) [OF same_slot_statuses] same_slot_pending)

lemma create_upload_entry_done:
  assumes "faults w = []" and "find (\<lambda>ch. ch_id ch = c) (channels (db w)) = Some ch"
  shows "\<exists>row. create_upload_entry w c (Some d) n
           = (Inr row,
              w\<lparr>db := (db w)\<lparr>daily_uploads :=
                     upsert_upload (daily_uploads (db w)) (pending_row c (ch_name ch) d n)\<rparr>,
                journal := journal w @ [CreateUploadEntry c (Some d) n True]\<rparr>)"
proof -
  from upsert_upload_has_slot [of c d n "daily_uploads (db w)" "ch_name ch"]
  obtain row where "find (same_slot c d n)
      (upsert_upload (daily_uploads (db w)) (pending_row c (ch_name ch) d n)) = Some row"
    by (cases "find (same_slot c d n)
                 (upsert_upload (daily_uploads (db w)) (pending_row c (ch_name ch) d n))")
       (auto simp: list_ex_iff find_None_iff)
  then show ?thesis
    using assms
    by (simp add: create_upload_entry_def journaled_def returned_def execute_def Let_def)
qed

lemma patch_slot_done:
  assumes "faults w = []" and "list_ex (same_slot c d n) (daily_uploads (db w))"
  shows "\<exists>row. patch_slot w c d n f
           = (Inr row,
              w\<lparr>db := (db w)\<lparr>daily_uploads :=
                     map (\<lambda>u. if same_slot c d n u then f u else u) (daily_uploads (db w))\<rparr>\<rparr>)"
proof -
  from assms(2) obtain u us where "filter (same_slot c d n) (daily_uploads (db w)) = u # us"
    by (cases "filter (same_slot c d n) (daily_uploads (db w))")
       (auto simp: list_ex_iff filter_empty_conv)
  then show ?thesis
    using assms(1) by (simp add: patch_slot_def execute_def Let_def)
qed

lemma get_channel_found:
  "faults w = [] \<Longrightarrow> filter (\<lambda>c. ch_name c = nm) (channels (db w)) = g # gs \<Longrightarrow>
     get_channel w (Some nm) = (Some g, w)"
  by (simp add: get_channel_def execute_def)

lemma filter_head_member: "filter P xs = g # gs \<Longrightarrow> g \<in> set xs"
  by (metis filter_is_subset list.set_intros(1) subsetD)

lemma process_selection_script_done:
  assumes nf: "faults w = []"
    and ch: "filter (\<lambda>c. ch_name c = nm) (channels (db w)) = g # gs"
    and s: "selected_channel s = Some nm" "selected_video s = Some n" "selected_date s = Some d"
      "content_type s = ''script''" "content_data s = cd"
  shows "\<exists>(ch' :: channel) w'. process_selection w s = (True, w')
           \<and> journal w' = journal w @
                [ProcessSelection (Some d) (Some nm) (Some n),
                 CreateUploadEntry (ch_id g) (Some d) n True,
                 UpdateScript (ch_id g) d n cd True]
           \<and> daily_uploads (db w') =
                map (\<lambda>u. if same_slot (ch_id g) d n u
                          then u\<lparr>script_text := Some cd, script_status := ''received'',
                                 script_received_at := Some (utcnow w),
                                 updated_at := Some (utcnow w)\<rparr>
                          else u)
                  (upsert_upload (daily_uploads (db w)) (pending_row (ch_id g) (ch_name ch') d n))"
proof -
  let ?wj = "w\<lparr>journal := journal w @ [ProcessSelection (Some d) (Some nm) (Some n)]\<rparr>"
  let ?f = "\<lambda>u. u\<lparr>script_text := Some cd, script_status := ''received'',
                    script_received_at := Some (utcnow w), updated_at := Some (utcnow w)\<rparr>"
  have gc: "get_channel ?wj (Some nm) = (Some g, ?wj)"
    by (rule get_channel_found [where gs = gs]) (simp_all add: nf ch)
  from find_member [OF filter_head_member [OF ch], of "\<lambda>ch. ch_id ch = ch_id g"]
  obtain ch' where fk: "find (\<lambda>ch. ch_id ch = ch_id g) (channels (db ?wj)) = Some ch'"
    by auto
  let ?rows = "upsert_upload (daily_uploads (db w)) (pending_row (ch_id g) (ch_name ch') d n)"
  let ?w2 = "?wj\<lparr>db := (db ?wj)\<lparr>daily_uploads := ?rows\<rparr>,
                  journal := journal ?wj @ [CreateUploadEntry (ch_id g) (Some d) n True]\<rparr>"
  from create_upload_entry_done [OF _ fk, of d n] nf
  obtain row where cr: "create_upload_entry ?wj (ch_id g) (Some d) n = (Inr row, ?w2)"
    by auto
  have "list_ex (same_slot (ch_id g) d n) (daily_uploads (db ?w2))"
    by (simp add: upsert_upload_has_slot)
  from patch_slot_done [OF _ this, of ?f] nf
  obtain row2 where ps: "patch_slot ?w2 (ch_id g) d n ?f
      = (Inr row2, ?w2\<lparr>db := (db ?w2)\<lparr>daily_uploads :=
            map (\<lambda>u. if same_slot (ch_id g) d n u then ?f u else u) (daily_uploads (db ?w2))\<rparr>\<rparr>)"
    by auto
  have "process_selection w s
          = (True, ?w2\<lparr>db := (db ?w2)\<lparr>daily_uploads :=
                 map (\<lambda>u. if same_slot (ch_id g) d n u then ?f u else u) ?rows\<rparr>,
               journal := journal ?w2 @ [UpdateScript (ch_id g) d n cd True]\<rparr>)"
    using ps by (simp add: process_selection_def s gc cr update_script_def journaled_def returned_def)
  then show ?thesis
    by (rule_tac x = ch' in exI) simp
qed

lemma process_selection_thumbnail_done:
  assumes nf: "faults w = []"
    and ch: "filter (\<lambda>c. ch_name c = nm) (channels (db w)) = g # gs"
    and s: "selected_channel s = Some nm" "selected_video s = Some n" "selected_date s = Some d"
      "content_type s = ''thumbnail''" "content_data s = PyFile file url"
  shows "\<exists>(ch' :: channel) w'. process_selection w s = (True, w')
           \<and> journal w' = journal w @
                [ProcessSelection (Some d) (Some nm) (Some n),
                 CreateUploadEntry (ch_id g) (Some d) n True,
                 UpdateThumbnail (ch_id g) d n file url True]
           \<and> daily_uploads (db w') =
                map (\<lambda>u. if same_slot (ch_id g) d n u
                          then u\<lparr>thumbnail_gdrive_id := Some file, thumbnail_gdrive_url := url,
                                 thumbnail_status := ''received'',
                                 updated_at := Some (utcnow w)\<rparr>
                          else u)
                  (upsert_upload (daily_uploads (db w)) (pending_row (ch_id g) (ch_name ch') d n))"
proof -
  let ?wj = "w\<lparr>journal := journal w @ [ProcessSelection (Some d) (Some nm) (Some n)]\<rparr>"
  let ?f = "\<lambda>u. u\<lparr>thumbnail_gdrive_id := Some file, thumbnail_gdrive_url := url,
                    thumbnail_status := ''received'', updated_at := Some (utcnow w)\<rparr>"
  have gc: "get_channel ?wj (Some nm) = (Some g, ?wj)"
    by (rule get_channel_found [where gs = gs]) (simp_all add: nf ch)
  from find_member [OF filter_head_member [OF ch], of "\<lambda>ch. ch_id ch = ch_id g"]
  obtain ch' where fk: "find (\<lambda>ch. ch_id ch = ch_id g) (channels (db ?wj)) = Some ch'"
    by auto
  let ?rows = "upsert_upload (daily_uploads (db w)) (pending_row (ch_id g) (ch_name ch') d n)"
  let ?w2 = "?wj\<lparr>db := (db ?wj)\<lparr>daily_uploads := ?rows\<rparr>,
                  journal := journal ?wj @ [CreateUploadEntry (ch_id g) (Some d) n True]\<rparr>"
  from create_upload_entry_done [OF _ fk, of d n] nf
  obtain row where cr: "create_upload_entry ?wj (ch_id g) (Some d) n = (Inr row, ?w2)"
    by auto
  have "list_ex (same_slot (ch_id g) d n) (daily_uploads (db ?w2))"
    by (simp add: upsert_upload_has_slot)
  from patch_slot_done [OF _ this, of ?f] nf
  obtain row2 where ps: "patch_slot ?w2 (ch_id g) d n ?f
      = (Inr row2, ?w2\<lparr>db := (db ?w2)\<lparr>daily_uploads :=
            map (\<lambda>u. if same_slot (ch_id g) d n u then ?f u else u) (daily_uploads (db ?w2))\<rparr>\<rparr>)"
    by auto
  have "process_selection w s
          = (True, ?w2\<lparr>db := (db ?w2)\<lparr>daily_uploads :=
                 map (\<lambda>u. if same_slot (ch_id g) d n u then ?f u else u) ?rows\<rparr>,
               journal := journal ?w2 @ [UpdateThumbnail (ch_id g) d n file url True]\<rparr>)"
    using ps by (simp add: process_selection_def s gc cr update_thumbnail_def journaled_def returned_def)
  then show ?thesis
    by (rule_tac x = ch' in exI) simp
qed

text \<open>The rows after such a commit, slot by slot.\<close>

lemma committed_rows:
  assumes key: "\<And>u. same_slot c d n (f u) = same_slot c d n u"
    and rows: "rows' = map (\<lambda>u. if same_slot c d n u then f u else u)
                         (upsert_upload rows (pending_row c nm d n))"
  shows "filter (\<lambda>r. \<not> same_slot c d n r) rows' = filter (\<lambda>r. \<not> same_slot c d n r) rows"
    and "list_ex (same_slot c d n) rows'"
    and "\<forall>r \<in> set rows'. same_slot c d n r \<longrightarrow> (\<exists>u. r = f u)"
proof -
  show "filter (\<lambda>r. \<not> same_slot c d n r) rows' = filter (\<lambda>r. \<not> same_slot c d n r) rows"
    unfolding rows by (simp only: patched_rows(1) [OF key] upsert_upload_others)
  show "list_ex (same_slot c d n) rows'"
    unfolding rows by (simp only: patched_rows(2) [OF key] upsert_upload_has_slot)
  show "\<forall>r \<in> set rows'. same_slot c d n r \<longrightarrow> (\<exists>u. r = f u)"
    unfolding rows by (rule patched_rows(3) [OF key])
qed

lemma committed_slot:
  assumes key: "\<And>u. same_slot c d n (f u) = same_slot c d n u"
    and post: "\<And>u. P (f u)"
    and rows: "rows' = map (\<lambda>u. if same_slot c d n u then f u else u)
                         (upsert_upload rows (pending_row c nm d n))"
  shows "other_rows c d n rows' = other_rows c d n rows
       \<and> slot_rows c d n rows' \<noteq> []
       \<and> list_all P (slot_rows c d n rows')"
proof -
  from committed_rows(2) [OF key rows]
  have "slot_rows c d n rows' \<noteq> []"
    by (simp add: slot_rows_def list_ex_iff filter_empty_conv)
  moreover from committed_rows(3) [OF key rows] post
  have "list_all P (slot_rows c d n rows')"
    by (auto simp: slot_rows_def list_all_iff)
  ultimately show ?thesis
    using committed_rows(1) [OF key rows] by (simp add: other_rows_def)
qed

text \<open>The video pick, when the chat platform accepts every call.\<close>

lemma handle_callback_video_world:
  assumes "selections w u = Some s" and "startswith v ''video:''" and "split1 v = Some t"
    and "py_int t = Some n" and "chat_faults w = []"
  shows "journal (snd (handle_callback isodate w u v))
           = journal (snd (process_selection (put_selection w u (s\<lparr>selected_video := Some n\<rparr>))
                             (s\<lparr>selected_video := Some n\<rparr>)))
       \<and> db (snd (handle_callback isodate w u v))
           = db (snd (process_selection (put_selection w u (s\<lparr>selected_video := Some n\<rparr>))
                        (s\<lparr>selected_video := Some n\<rparr>)))"
  using assms(1,3,4,5) video_is_terminal [OF assms(2)] assms(2)
  by (simp add: handle_callback_def chat_no_faults Let_def case_prod_beta
        process_selection_chat_no_faults del_selection_def)

text \<open>The scenario up to its video pick.\<close>

lemma scenario3_before_video:
  assumes "chat_faults w0 = []"
  shows "selections (run_callbacks isodate (snd (start_selection w0 u ct cd mid)) u
      [''date:2025-01-21'', ''channel:BI'', ''back_to_channel'', ''channel:GYH'']) u
     = Some \<lparr>content_type = ct, content_data = cd, step = ''video'',
             selected_date = Some ''2025-01-21'', selected_channel = Some ''GYH'',
             selected_video = None, message_id = Some mid\<rparr>
   \<and> journal (run_callbacks isodate (snd (start_selection w0 u ct cd mid)) u
      [''date:2025-01-21'', ''channel:BI'', ''back_to_channel'', ''channel:GYH'']) = journal w0
   \<and> db (run_callbacks isodate (snd (start_selection w0 u ct cd mid)) u
      [''date:2025-01-21'', ''channel:BI'', ''back_to_channel'', ''channel:GYH'']) = db w0
   \<and> chat_faults (run_callbacks isodate (snd (start_selection w0 u ct cd mid)) u
      [''date:2025-01-21'', ''channel:BI'', ''back_to_channel'', ''channel:GYH'']) = []
   \<and> (faults w0 = [] \<longrightarrow>
        faults (run_callbacks isodate (snd (start_selection w0 u ct cd mid)) u
          [''date:2025-01-21'', ''channel:BI'', ''back_to_channel'', ''channel:GYH'']) = [])"
proof -
  let ?s0 = "\<lparr>content_type = ct, content_data = cd, step = ''date'', selected_date = None,
              selected_channel = None, selected_video = None, message_id = Some mid\<rparr>"
  let ?w0 = "snd (start_selection w0 u ct cd mid)"
  have nv: "\<not> startswith ''date:2025-01-21'' ''video:''" "\<not> startswith ''channel:BI'' ''video:''"
    "\<not> startswith ''back_to_channel'' ''video:''" "\<not> startswith ''channel:GYH'' ''video:''"
    by (simp_all add: startswith_def)
  have a0: "selections ?w0 u = Some ?s0" "journal ?w0 = journal w0" "db ?w0 = db w0"
    "faults ?w0 = faults w0" "chat_faults ?w0 = []"
    using assms
    by (simp_all add: start_selection_def chat_no_faults put_selection_def fresh_selection_def)
  let ?s1 = "?s0\<lparr>selected_date := Some ''2025-01-21'', step := ''channel''\<rparr>"
  let ?w1 = "snd (handle_callback isodate ?w0 u ''date:2025-01-21'')"
  have a1: "selections ?w1 u = Some ?s1" "journal ?w1 = journal w0" "db ?w1 = db w0"
    "faults w0 = [] \<longrightarrow> faults ?w1 = []" "chat_faults ?w1 = []"
    using handle_callback_date [OF a0(1) chat_ok_no_faults [OF a0(5)], of "''2025-01-21''" isodate]
      handle_callback_step_frame [OF a0(1) nv(1), of isodate]
      handle_callback_chat_no_faults [OF a0(5), of isodate u "''date:2025-01-21''"] a0
    by simp_all
  let ?s2 = "?s1\<lparr>selected_channel := Some ''BI'', step := ''video''\<rparr>"
  let ?w2 = "snd (handle_callback isodate ?w1 u ''channel:BI'')"
  have a2: "selections ?w2 u = Some ?s2" "journal ?w2 = journal w0" "db ?w2 = db w0"
    "faults w0 = [] \<longrightarrow> faults ?w2 = []" "chat_faults ?w2 = []"
    using handle_callback_channel [OF a1(1) chat_ok_no_faults [OF a1(5)], of "''BI''" isodate]
      handle_callback_step_frame [OF a1(1) nv(2), of isodate]
      handle_callback_chat_no_faults [OF a1(5), of isodate u "''channel:BI''"] a1
    by simp_all
  let ?s3 = "?s2\<lparr>step := ''channel'', selected_video := None\<rparr>"
  let ?w3 = "snd (handle_callback isodate ?w2 u ''back_to_channel'')"
  have a3: "selections ?w3 u = Some ?s3" "journal ?w3 = journal w0" "db ?w3 = db w0"
    "faults w0 = [] \<longrightarrow> faults ?w3 = []" "chat_faults ?w3 = []"
    using handle_callback_back_to_channel [OF a2(1) chat_ok_no_faults [OF a2(5)], of isodate]
      handle_callback_step_frame [OF a2(1) nv(3), of isodate]
      handle_callback_chat_no_faults [OF a2(5), of isodate u "''back_to_channel''"] a2
    by simp_all
  let ?s4 = "?s3\<lparr>selected_channel := Some ''GYH'', step := ''video''\<rparr>"
  let ?w4 = "snd (handle_callback isodate ?w3 u ''channel:GYH'')"
  have a4: "selections ?w4 u = Some ?s4" "journal ?w4 = journal w0" "db ?w4 = db w0"
    "faults w0 = [] \<longrightarrow> faults ?w4 = []" "chat_faults ?w4 = []"
    using handle_callback_channel [OF a3(1) chat_ok_no_faults [OF a3(5)], of "''GYH''" isodate]
      handle_callback_step_frame [OF a3(1) nv(4), of isodate]
      handle_callback_chat_no_faults [OF a3(5), of isodate u "''channel:GYH''"] a3
    by simp_all
  have run: "run_callbacks isodate ?w0 u
      [''date:2025-01-21'', ''channel:BI'', ''back_to_channel'', ''channel:GYH''] = ?w4"
    by simp
  show ?thesis
    unfolding run using a4 by simp
qed

text \<open>
  Claim C8, as stated: a back transition moves exactly one step backward. The handler
  dispatches on the callback data alone and never reads the step. At the step date,
  where nothing is before, \<^verbatim>\<open>back_to_channel\<close> moves the wizard forward to the step
  channel; at the step video, \<^verbatim>\<open>back_to_date\<close> moves it two steps back, past the step
  channel.
\<close>

theorem back_ignores_current_step:
  "(let w = snd (start_selection world0 7 ''script'' (PyStr ''hello'') 1);
        w1 = snd (handle_callback (\<lambda>d. True) w 7 ''back_to_channel'');
        w2 = run_callbacks (\<lambda>d. True) w 7 [''date:2025-01-21'', ''channel:BI''];
        w3 = snd (handle_callback (\<lambda>d. True) w2 7 ''back_to_date'')
    in map_option step (selections w 7) = Some ''date''
       \<and> map_option step (selections w1 7) = Some ''channel''
       \<and> previous_step ''date'' = None
       \<and> map_option step (selections w2 7) = Some ''video''
       \<and> map_option step (selections w3 7) = Some ''date''
       \<and> previous_step ''video'' = Some ''channel'')"
  by (simp add: world0_def chan_GYH_def chan_BI_def start_selection_def fresh_selection_def
        handle_callback_def chat_def put_selection_def startswith_def split1_def
        get_channel_buttons_def list_channels_def execute_def previous_step_def Let_def)

text \<open>
  Claim C8, amended. Once \<^verbatim>\<open>query.answer()\<close> is accepted, a back transition sets the
  step to its target whatever the current step is, \<^verbatim>\<open>back_to_date\<close> to date and
  \<^verbatim>\<open>back_to_channel\<close> to channel, and clears only the selection captured after the step
  returned to: \<^verbatim>\<open>back_to_date\<close> clears the chosen channel, \<^verbatim>\<open>back_to_channel\<close> the
  chosen video slot, and every other field of the state (the content payload, the chosen
  date, for \<^verbatim>\<open>back_to_channel\<close> also the chosen channel) is as before. This is exactly
  one step backward at the step whose keyboard offers the button: a date pick leads to
  the step channel, whose keyboard ends with the \<^verbatim>\<open>back_to_date\<close> button, and a channel
  pick to the step video, whose keyboard ends with \<^verbatim>\<open>back_to_channel\<close>. And when the chat
  platform accepts every call, the sequence date:2025-01-21, channel:BI, back_to_channel,
  channel:GYH, video:3 from a fresh selection commits exactly (2025-01-21, GYH, 3): that
  is the one commit the journal gains, whatever the store and its failures; and when the
  store answers and has a channel GYH, the calls made are the creation of slot 3 of that
  date for the id of GYH and the update of that slot with the content (the script, or
  the thumbnail file), both returning, after which that slot has a row, each row of it
  holds the content with the status received, and the rows of every other slot, those
  of BI among them, are as they were.
\<close>

theorem back_sets_step:
  assumes "selections w u = Some s" and "chat_ok 1 w"
  shows "selections (snd (handle_callback isodate w u ''back_to_date'')) u
           = Some (s\<lparr>step := ''date'', selected_channel := None\<rparr>)
       \<and> selections (snd (handle_callback isodate w u ''back_to_channel'')) u
           = Some (s\<lparr>step := ''channel'', selected_video := None\<rparr>)
       \<and> (step s = ''channel'' \<longrightarrow>
            map_option step (selections (snd (handle_callback isodate w u ''back_to_date'')) u)
              = previous_step (step s))
       \<and> (step s = ''video'' \<longrightarrow>
            map_option step (selections (snd (handle_callback isodate w u ''back_to_channel'')) u)
              = previous_step (step s))
       \<and> (CHR '':'' \<notin> set d \<longrightarrow>
            selections (snd (handle_callback isodate w u (''date:'' @ d))) u
              = Some (s\<lparr>selected_date := Some d, step := ''channel''\<rparr>))
       \<and> (CHR '':'' \<notin> set c \<longrightarrow>
            selections (snd (handle_callback isodate w u (''channel:'' @ c))) u
              = Some (s\<lparr>selected_channel := Some c, step := ''video''\<rparr>))
       \<and> last (fst (get_channel_buttons w)) = [''back_to_date'', ''cancel'']
       \<and> last get_video_number_buttons = [''back_to_channel'', ''cancel'']
       \<and> (chat_faults w0 = [] \<longrightarrow>
           (let wv = run_callbacks isodate (snd (start_selection w0 u ct cd mid)) u
                       [''date:2025-01-21'', ''channel:BI'', ''back_to_channel'', ''channel:GYH'',
                        ''video:3'']
            in filter is_commit (journal wv)
                 = filter is_commit (journal w0)
                   @ [ProcessSelection (Some ''2025-01-21'') (Some ''GYH'') (Some 3)]
             \<and> (faults w0 = [] \<and> filter (\<lambda>c. ch_name c = ''GYH'') (channels (db w0)) = g # gs
                  \<and> ct = ''script'' \<longrightarrow>
                  journal wv = journal w0
                    @ [ProcessSelection (Some ''2025-01-21'') (Some ''GYH'') (Some 3),
                       CreateUploadEntry (ch_id g) (Some ''2025-01-21'') 3 True,
                       UpdateScript (ch_id g) ''2025-01-21'' 3 cd True]
                  \<and> other_rows (ch_id g) ''2025-01-21'' 3 (daily_uploads (db wv))
                      = other_rows (ch_id g) ''2025-01-21'' 3 (daily_uploads (db w0))
                  \<and> slot_rows (ch_id g) ''2025-01-21'' 3 (daily_uploads (db wv)) \<noteq> []
                  \<and> list_all (\<lambda>r. script_text r = Some cd \<and> script_status r = ''received'')
                       (slot_rows (ch_id g) ''2025-01-21'' 3 (daily_uploads (db wv))))
             \<and> (faults w0 = [] \<and> filter (\<lambda>c. ch_name c = ''GYH'') (channels (db w0)) = g # gs
                  \<and> ct = ''thumbnail'' \<and> cd = PyFile file url \<longrightarrow>
                  journal wv = journal w0
                    @ [ProcessSelection (Some ''2025-01-21'') (Some ''GYH'') (Some 3),
                       CreateUploadEntry (ch_id g) (Some ''2025-01-21'') 3 True,
                       UpdateThumbnail (ch_id g) ''2025-01-21'' 3 file url True]
                  \<and> other_rows (ch_id g) ''2025-01-21'' 3 (daily_uploads (db wv))
                      = other_rows (ch_id g) ''2025-01-21'' 3 (daily_uploads (db w0))
                  \<and> slot_rows (ch_id g) ''2025-01-21'' 3 (daily_uploads (db wv)) \<noteq> []
                  \<and> list_all (\<lambda>r. thumbnail_gdrive_id r = Some file \<and> thumbnail_gdrive_url r = url
                                    \<and> thumbnail_status r = ''received'')
                       (slot_rows (ch_id g) ''2025-01-21'' 3 (daily_uploads (db wv))))))"
proof -
  note b1 = handle_callback_back_to_date [OF assms, of isodate]
  note b2 = handle_callback_back_to_channel [OF assms, of isodate]
  have p1: "step s = ''channel'' \<longrightarrow>
            map_option step (selections (snd (handle_callback isodate w u ''back_to_date'')) u)
              = previous_step (step s)"
    by (simp add: b1 previous_step_def)
  have p2: "step s = ''video'' \<longrightarrow>
            map_option step (selections (snd (handle_callback isodate w u ''back_to_channel'')) u)
              = previous_step (step s)"
    by (simp add: b2 previous_step_def)
  have f1: "CHR '':'' \<notin> set d \<longrightarrow>
            selections (snd (handle_callback isodate w u (''date:'' @ d))) u
              = Some (s\<lparr>selected_date := Some d, step := ''channel''\<rparr>)"
    using handle_callback_date [OF assms, of d isodate] by blast
  have f2: "CHR '':'' \<notin> set c \<longrightarrow>
            selections (snd (handle_callback isodate w u (''channel:'' @ c))) u
              = Some (s\<lparr>selected_channel := Some c, step := ''video''\<rparr>)"
    using handle_callback_channel [OF assms, of c isodate] by blast
  have k2: "last get_video_number_buttons = [''back_to_channel'', ''cancel'']"
    by (simp add: get_video_number_buttons_def)
  let ?d = "''2025-01-21''"
  let ?pre = "[''date:2025-01-21'', ''channel:BI'', ''back_to_channel'', ''channel:GYH'']"
  let ?w4 = "run_callbacks isodate (snd (start_selection w0 u ct cd mid)) u ?pre"
  let ?s4 = "\<lparr>content_type = ct, content_data = cd, step = ''video'',
             selected_date = Some ?d, selected_channel = Some ''GYH'',
             selected_video = None, message_id = Some mid\<rparr>"
  let ?s5 = "?s4\<lparr>selected_video := Some 3\<rparr>"
  let ?w5 = "put_selection ?w4 u ?s5"
  let ?wv = "run_callbacks isodate (snd (start_selection w0 u ct cd mid)) u
               [''date:2025-01-21'', ''channel:BI'', ''back_to_channel'', ''channel:GYH'',
                ''video:3'']"
  let ?ps = "ProcessSelection (Some ?d) (Some ''GYH'') (Some 3)"
  have sc: "chat_faults w0 = [] \<longrightarrow>
           (let wv = ?wv
            in filter is_commit (journal wv) = filter is_commit (journal w0) @ [?ps]
             \<and> (faults w0 = [] \<and> filter (\<lambda>c. ch_name c = ''GYH'') (channels (db w0)) = g # gs
                  \<and> ct = ''script'' \<longrightarrow>
                  journal wv = journal w0
                    @ [?ps, CreateUploadEntry (ch_id g) (Some ?d) 3 True,
                       UpdateScript (ch_id g) ?d 3 cd True]
                  \<and> other_rows (ch_id g) ?d 3 (daily_uploads (db wv))
                      = other_rows (ch_id g) ?d 3 (daily_uploads (db w0))
                  \<and> slot_rows (ch_id g) ?d 3 (daily_uploads (db wv)) \<noteq> []
                  \<and> list_all (\<lambda>r. script_text r = Some cd \<and> script_status r = ''received'')
                       (slot_rows (ch_id g) ?d 3 (daily_uploads (db wv))))
             \<and> (faults w0 = [] \<and> filter (\<lambda>c. ch_name c = ''GYH'') (channels (db w0)) = g # gs
                  \<and> ct = ''thumbnail'' \<and> cd = PyFile file url \<longrightarrow>
                  journal wv = journal w0
                    @ [?ps, CreateUploadEntry (ch_id g) (Some ?d) 3 True,
                       UpdateThumbnail (ch_id g) ?d 3 file url True]
                  \<and> other_rows (ch_id g) ?d 3 (daily_uploads (db wv))
                      = other_rows (ch_id g) ?d 3 (daily_uploads (db w0))
                  \<and> slot_rows (ch_id g) ?d 3 (daily_uploads (db wv)) \<noteq> []
                  \<and> list_all (\<lambda>r. thumbnail_gdrive_id r = Some file \<and> thumbnail_gdrive_url r = url
                                    \<and> thumbnail_status r = ''received'')
                       (slot_rows (ch_id g) ?d 3 (daily_uploads (db wv)))))"
  proof
    assume quiet: "chat_faults w0 = []"
    from scenario3_before_video [OF quiet, of isodate u ct cd mid]
    have a4: "selections ?w4 u = Some ?s4" and j4: "journal ?w4 = journal w0"
      and d4: "db ?w4 = db w0" and c4: "chat_faults ?w4 = []"
      and f4: "faults w0 = [] \<longrightarrow> faults ?w4 = []"
      by blast+
    have v: "startswith ''video:3'' ''video:''" "split1 ''video:3'' = Some ''3''"
      "py_int ''3'' = Some 3"
      by (simp_all add: startswith_def split1_def py_int_def is_digit_def is_space_def)
    have wv: "?wv = snd (handle_callback isodate ?w4 u ''video:3'')"
      using run_callbacks_append [of isodate "snd (start_selection w0 u ct cd mid)" u ?pre "[''video:3'']"]
      by simp
    from handle_callback_video_world [OF a4 v c4, of isodate]
    have jv: "journal ?wv = journal (snd (process_selection ?w5 ?s5))"
      and dv: "db ?wv = db (snd (process_selection ?w5 ?s5))"
      unfolding wv by blast+
    obtain ok w6 where ps: "process_selection ?w5 ?s5 = (ok, w6)"
      by (cases "process_selection ?w5 ?s5") auto
    from process_selection_effect [OF ps] obtain rest where
      j6: "journal w6 = journal ?w5 @ ?ps # rest"
      and c6: "commits rest = 0"
      by auto
    have s1: "filter is_commit (journal ?wv) = filter is_commit (journal w0) @ [?ps]"
      unfolding jv ps using j6 c6 j4
      by (simp add: put_selection_simps commits_def)
    have s2: "faults w0 = [] \<and> filter (\<lambda>c. ch_name c = ''GYH'') (channels (db w0)) = g # gs
                  \<and> ct = ''script'' \<longrightarrow>
                  journal ?wv = journal w0
                    @ [?ps, CreateUploadEntry (ch_id g) (Some ?d) 3 True,
                       UpdateScript (ch_id g) ?d 3 cd True]
                  \<and> other_rows (ch_id g) ?d 3 (daily_uploads (db ?wv))
                      = other_rows (ch_id g) ?d 3 (daily_uploads (db w0))
                  \<and> slot_rows (ch_id g) ?d 3 (daily_uploads (db ?wv)) \<noteq> []
                  \<and> list_all (\<lambda>r. script_text r = Some cd \<and> script_status r = ''received'')
                       (slot_rows (ch_id g) ?d 3 (daily_uploads (db ?wv)))"
    proof (intro impI, elim conjE)
      assume nf: "faults w0 = []"
        and ch: "filter (\<lambda>c. ch_name c = ''GYH'') (channels (db w0)) = g # gs"
        and ct: "ct = ''script''"
      have nf5: "faults ?w5 = []" using nf f4 by (simp add: put_selection_simps)
      have ch5: "filter (\<lambda>c. ch_name c = ''GYH'') (channels (db ?w5)) = g # gs"
        using ch d4 by (simp add: put_selection_simps)
      have s5: "selected_channel ?s5 = Some ''GYH''" "selected_video ?s5 = Some 3"
        "selected_date ?s5 = Some ?d" "content_type ?s5 = ''script''" "content_data ?s5 = cd"
        using ct by simp_all
      have d5: "daily_uploads (db ?w5) = daily_uploads (db w0)" "journal ?w5 = journal w0"
        using d4 j4 by (simp_all add: put_selection_simps)
      from process_selection_script_done [OF nf5 ch5 s5]
      obtain ch' :: channel and w' where
        p: "process_selection ?w5 ?s5 = (True, w')"
        and j: "journal w' = journal ?w5 @ [?ps, CreateUploadEntry (ch_id g) (Some ?d) 3 True,
                  UpdateScript (ch_id g) ?d 3 cd True]"
        and r: "daily_uploads (db w') =
                map (\<lambda>u. if same_slot (ch_id g) ?d 3 u
                          then u\<lparr>script_text := Some cd, script_status := ''received'',
                                 script_received_at := Some (utcnow ?w5),
                                 updated_at := Some (utcnow ?w5)\<rparr>
                          else u)
                  (upsert_upload (daily_uploads (db ?w5)) (pending_row (ch_id g) (ch_name ch') ?d 3))"
        by blast
      have "other_rows (ch_id g) ?d 3 (daily_uploads (db w'))
                    = other_rows (ch_id g) ?d 3 (daily_uploads (db ?w5))
                  \<and> slot_rows (ch_id g) ?d 3 (daily_uploads (db w')) \<noteq> []
                  \<and> list_all (\<lambda>r. script_text r = Some cd \<and> script_status r = ''received'')
                       (slot_rows (ch_id g) ?d 3 (daily_uploads (db w')))"
        by (rule committed_slot [OF _ _ r]) (simp_all add: same_slot_def)
      then have rows: "other_rows (ch_id g) ?d 3 (daily_uploads (db w'))
                    = other_rows (ch_id g) ?d 3 (daily_uploads (db w0))
                  \<and> slot_rows (ch_id g) ?d 3 (daily_uploads (db w')) \<noteq> []
                  \<and> list_all (\<lambda>r. script_text r = Some cd \<and> script_status r = ''received'')
                       (slot_rows (ch_id g) ?d 3 (daily_uploads (db w')))"
        unfolding d5 .
      show "journal ?wv = journal w0
                    @ [?ps, CreateUploadEntry (ch_id g) (Some ?d) 3 True,
                       UpdateScript (ch_id g) ?d 3 cd True]
                  \<and> other_rows (ch_id g) ?d 3 (daily_uploads (db ?wv))
                      = other_rows (ch_id g) ?d 3 (daily_uploads (db w0))
                  \<and> slot_rows (ch_id g) ?d 3 (daily_uploads (db ?wv)) \<noteq> []
                  \<and> list_all (\<lambda>r. script_text r = Some cd \<and> script_status r = ''received'')
                       (slot_rows (ch_id g) ?d 3 (daily_uploads (db ?wv)))"
        unfolding jv dv p using j rows d5(2) by simp
    qed
    have s3: "faults w0 = [] \<and> filter (\<lambda>c. ch_name c = ''GYH'') (channels (db w0)) = g # gs
                  \<and> ct = ''thumbnail'' \<and> cd = PyFile file url \<longrightarrow>
                  journal ?wv = journal w0
                    @ [?ps, CreateUploadEntry (ch_id g) (Some ?d) 3 True,
                       UpdateThumbnail (ch_id g) ?d 3 file url True]
                  \<and> other_rows (ch_id g) ?d 3 (daily_uploads (db ?wv))
                      = other_rows (ch_id g) ?d 3 (daily_uploads (db w0))
                  \<and> slot_rows (ch_id g) ?d 3 (daily_uploads (db ?wv)) \<noteq> []
                  \<and> list_all (\<lambda>r. thumbnail_gdrive_id r = Some file \<and> thumbnail_gdrive_url r = url
                                    \<and> thumbnail_status r = ''received'')
                       (slot_rows (ch_id g) ?d 3 (daily_uploads (db ?wv)))"
    proof (intro impI, elim conjE)
      assume nf: "faults w0 = []"
        and ch: "filter (\<lambda>c. ch_name c = ''GYH'') (channels (db w0)) = g # gs"
        and ct: "ct = ''thumbnail''" and cd: "cd = PyFile file url"
      have nf5: "faults ?w5 = []" using nf f4 by (simp add: put_selection_simps)
      have ch5: "filter (\<lambda>c. ch_name c = ''GYH'') (channels (db ?w5)) = g # gs"
        using ch d4 by (simp add: put_selection_simps)
      have s5: "selected_channel ?s5 = Some ''GYH''" "selected_video ?s5 = Some 3"
        "selected_date ?s5 = Some ?d" "content_type ?s5 = ''thumbnail''"
        "content_data ?s5 = PyFile file url"
        using ct cd by simp_all
      have d5: "daily_uploads (db ?w5) = daily_uploads (db w0)" "journal ?w5 = journal w0"
        using d4 j4 by (simp_all add: put_selection_simps)
      from process_selection_thumbnail_done [OF nf5 ch5 s5]
      obtain ch' :: channel and w' where
        p: "process_selection ?w5 ?s5 = (True, w')"
        and j: "journal w' = journal ?w5 @ [?ps, CreateUploadEntry (ch_id g) (Some ?d) 3 True,
                  UpdateThumbnail (ch_id g) ?d 3 file url True]"
        and r: "daily_uploads (db w') =
                map (\<lambda>u. if same_slot (ch_id g) ?d 3 u
                          then u\<lparr>thumbnail_gdrive_id := Some file, thumbnail_gdrive_url := url,
                                 thumbnail_status := ''received'',
                                 updated_at := Some (utcnow ?w5)\<rparr>
                          else u)
                  (upsert_upload (daily_uploads (db ?w5)) (pending_row (ch_id g) (ch_name ch') ?d 3))"
        by blast
      have "other_rows (ch_id g) ?d 3 (daily_uploads (db w'))
                    = other_rows (ch_id g) ?d 3 (daily_uploads (db ?w5))
                  \<and> slot_rows (ch_id g) ?d 3 (daily_uploads (db w')) \<noteq> []
                  \<and> list_all (\<lambda>r. thumbnail_gdrive_id r = Some file \<and> thumbnail_gdrive_url r = url
                                    \<and> thumbnail_status r = ''received'')
                       (slot_rows (ch_id g) ?d 3 (daily_uploads (db w')))"
        by (rule committed_slot [OF _ _ r]) (simp_all add: same_slot_def)
      then have rows: "other_rows (ch_id g) ?d 3 (daily_uploads (db w'))
                    = other_rows (ch_id g) ?d 3 (daily_uploads (db w0))
                  \<and> slot_rows (ch_id g) ?d 3 (daily_uploads (db w')) \<noteq> []
                  \<and> list_all (\<lambda>r. thumbnail_gdrive_id r = Some file \<and> thumbnail_gdrive_url r = url
                                    \<and> thumbnail_status r = ''received'')
                       (slot_rows (ch_id g) ?d 3 (daily_uploads (db w')))"
        unfolding d5 .
      show "journal ?wv = journal w0
                    @ [?ps, CreateUploadEntry (ch_id g) (Some ?d) 3 True,
                       UpdateThumbnail (ch_id g) ?d 3 file url True]
                  \<and> other_rows (ch_id g) ?d 3 (daily_uploads (db ?wv))
                      = other_rows (ch_id g) ?d 3 (daily_uploads (db w0))
                  \<and> slot_rows (ch_id g) ?d 3 (daily_uploads (db ?wv)) \<noteq> []
                  \<and> list_all (\<lambda>r. thumbnail_gdrive_id r = Some file \<and> thumbnail_gdrive_url r = url
                                    \<and> thumbnail_status r = ''received'')
                       (slot_rows (ch_id g) ?d 3 (daily_uploads (db ?wv)))"
        unfolding jv dv p using j rows d5(2) by simp
    qed
    show "let wv = ?wv
            in filter is_commit (journal wv) = filter is_commit (journal w0) @ [?ps]
             \<and> (faults w0 = [] \<and> filter (\<lambda>c. ch_name c = ''GYH'') (channels (db w0)) = g # gs
                  \<and> ct = ''script'' \<longrightarrow>
                  journal wv = journal w0
                    @ [?ps, CreateUploadEntry (ch_id g) (Some ?d) 3 True,
                       UpdateScript (ch_id g) ?d 3 cd True]
                  \<and> other_rows (ch_id g) ?d 3 (daily_uploads (db wv))
                      = other_rows (ch_id g) ?d 3 (daily_uploads (db w0))
                  \<and> slot_rows (ch_id g) ?d 3 (daily_uploads (db wv)) \<noteq> []
                  \<and> list_all (\<lambda>r. script_text r = Some cd \<and> script_status r = ''received'')
                       (slot_rows (ch_id g) ?d 3 (daily_uploads (db wv))))
             \<and> (faults w0 = [] \<and> filter (\<lambda>c. ch_name c = ''GYH'') (channels (db w0)) = g # gs
                  \<and> ct = ''thumbnail'' \<and> cd = PyFile file url \<longrightarrow>
                  journal wv = journal w0
                    @ [?ps, CreateUploadEntry (ch_id g) (Some ?d) 3 True,
                       UpdateThumbnail (ch_id g) ?d 3 file url True]
                  \<and> other_rows (ch_id g) ?d 3 (daily_uploads (db wv))
                      = other_rows (ch_id g) ?d 3 (daily_uploads (db w0))
                  \<and> slot_rows (ch_id g) ?d 3 (daily_uploads (db wv)) \<noteq> []
                  \<and> list_all (\<lambda>r. thumbnail_gdrive_id r = Some file \<and> thumbnail_gdrive_url r = url
                                    \<and> thumbnail_status r = ''received'')
                       (slot_rows (ch_id g) ?d 3 (daily_uploads (db wv))))"
      unfolding Let_def by (intro conjI) (fact s1, fact s2, fact s3)
  qed
  show ?thesis
    by (intro conjI) (fact b1, fact b2, fact p1, fact p2, fact f1, fact f2,
        rule get_channel_buttons_last, fact k2, fact sc)
qed

theorem back_sets_step_witness:
  "(let w0 = world_with [pending_row 2 ''BI'' ''2025-01-21'' 3] [] [];
        w = snd (start_selection w0 7 ''script'' (PyStr ''hello'') 1);
        wv = run_callbacks (\<lambda>d. True) w 7
               [''date:2025-01-21'', ''channel:BI'', ''back_to_channel'', ''channel:GYH'',
                ''video:3'']
    in selections (snd (handle_callback (\<lambda>d. True) w 7 ''back_to_date'')) 7
         = Some \<lparr>content_type = ''script'', content_data = PyStr ''hello'', step = ''date'',
                 selected_date = None, selected_channel = None, selected_video = None,
                 message_id = Some 1\<rparr>
       \<and> journal wv
           = [ProcessSelection (Some ''2025-01-21'') (Some ''GYH'') (Some 3),
              CreateUploadEntry 1 (Some ''2025-01-21'') 3 True,
              UpdateScript 1 ''2025-01-21'' 3 (PyStr ''hello'') True]
       \<and> other_rows 1 ''2025-01-21'' 3 (daily_uploads (db wv))
           = [pending_row 2 ''BI'' ''2025-01-21'' 3]
       \<and> slot_rows 1 ''2025-01-21'' 3 (daily_uploads (db wv)) \<noteq> []
       \<and> list_all (\<lambda>r. script_text r = Some (PyStr ''hello'') \<and> script_status r = ''received'')
            (slot_rows 1 ''2025-01-21'' 3 (daily_uploads (db wv))))
   \<and> ch_id chan_GYH = 1 \<and> ch_id chan_BI = 2"
proof -
  let ?start = "world_with [pending_row 2 ''BI'' ''2025-01-21'' 3] [] []"
  let ?w = "snd (start_selection ?start 7 ''script'' (PyStr ''hello'') 1)"
  let ?s = "\<lparr>content_type = ''script'', content_data = PyStr ''hello'', step = ''date'',
             selected_date = None, selected_channel = None, selected_video = None,
             message_id = Some 1\<rparr>"
  have f: "faults ?start = []" "journal ?start = []" "chat_faults ?start = []"
    "filter (\<lambda>c. ch_name c = ''GYH'') (channels (db ?start)) = chan_GYH # []"
    "daily_uploads (db ?start) = [pending_row 2 ''BI'' ''2025-01-21'' 3]"
    by (simp_all add: world_with_def world0_def chan_GYH_def chan_BI_def)
  have a: "selections ?w 7 = Some ?s"
    by (simp add: start_selection_def chat_no_faults f put_selection_def fresh_selection_def)
  have c: "chat_ok 1 ?w"
    by (rule chat_ok_no_faults, rule start_selection_state(4), rule f)
  have o: "other_rows 1 ''2025-01-21'' 3 [pending_row 2 ''BI'' ''2025-01-21'' 3]
             = [pending_row 2 ''BI'' ''2025-01-21'' 3]"
    by (simp add: other_rows_def same_slot_def pending_row_def)
  have g: "ch_id chan_GYH = 1" "ch_id chan_BI = 2"
    by (simp_all add: chan_GYH_def chan_BI_def)
  from back_sets_step [OF a c, of "\<lambda>d. True" "''x''" "''y''" ?start "''script''"
      "PyStr ''hello''" 1 chan_GYH "[]"] f o g
  show ?thesis
    by (simp add: Let_def del: run_callbacks.simps)
qed

section \<open>Bulk assignment\<close>









text \<open>
  Five scripts in a world whose fourth remote call fails, the creation of the entry of
  the second item: that item is skipped, the third and the fourth are assigned all the
  same, and the fifth is dropped.
\<close>

lemma bulk_example:
  "fst (process_bulk faulty_world bulk_state) = 3
   \<and> journal (snd (process_bulk faulty_world bulk_state))
       = [CreateUploadEntry 1 (Some ''2025-01-21'') 1 True,
          UpdateScript 1 ''2025-01-21'' 1 (PyStr ''s1'') True,
          CreateUploadEntry 1 (Some ''2025-01-21'') 2 False,
          CreateUploadEntry 1 (Some ''2025-01-21'') 3 True,
          UpdateScript 1 ''2025-01-21'' 3 (PyStr ''s3'') True,
          CreateUploadEntry 1 (Some ''2025-01-21'') 4 True,
          UpdateScript 1 ''2025-01-21'' 4 (PyStr ''s4'') True]"
  by (simp add: process_bulk_def bulk_item_def get_channel_def execute_def create_upload_entry_def
        update_script_def patch_slot_def upsert_upload_def same_slot_def pending_row_def
        journaled_def returned_def
        faulty_world_def bulk_state_def world0_def chan_GYH_def chan_BI_def Let_def)


end
